theory Spec2Isabelle
  imports Complex_Main
begin

section \<open>Python values shared by the three scripts\<close>

text \<open>
  Exceptions that the modelled statements can raise. A function of the model that can
  raise and changes nothing returns \<open>py_error + 'a\<close>, with \<open>Inl\<close> the exception that
  leaves the function; the functions of the ingestion script, which change variables and
  files, also return the state at the raise.
\<close>

datatype py_error =
    FileNotFoundError
  | EmptyDataError
  | IndexError
  | ValueError
  | NameError
  | UnicodeDecodeError
  | OtherError string

text \<open>
  A pandas/numpy float cell: \<open>None\<close> is NaN, \<open>Some x\<close> a finite value. Finite values are
  idealised as reals; infinities are not modelled.
\<close>

type_synonym cell = "real option"

section \<open>Resilient reader: \<open>get_data\<close> (Sensor pages/Windsensor1.py, Mainpage.py)\<close>

text \<open>
  \<open>read_csv k\<close> is the outcome of the \<open>k\<close>-th call of \<open>pd.read_csv(path, sep = '\t')\<close> made by
  one call of \<open>get_data\<close> (counted from 0): the parsed frame, or the exception raised.
  Every failed attempt increments \<open>attempt\<close> by one, so the call made while \<open>attempt = k\<close> is
  call number \<open>k\<close>. \<open>time.sleep(delay)\<close> and the printed messages have no effect on the
  result and are left out. Falling off the end of the \<open>while\<close> loop returns Python's \<open>None\<close>:
  \<open>Inr None\<close>.
\<close>

definition retryable :: "py_error \<Rightarrow> bool" where
  "retryable e = (e = FileNotFoundError \<or> e = EmptyDataError)"

function get_data_loop :: "(nat \<Rightarrow> py_error + 'd) \<Rightarrow> int \<Rightarrow> nat \<Rightarrow> py_error + 'd option" where
  "get_data_loop read_csv max_retry attempt =
     (if int attempt < max_retry then
        (case read_csv attempt of
           Inr data \<Rightarrow> Inr (Some data)
         | Inl e \<Rightarrow>
             if e = FileNotFoundError then get_data_loop read_csv max_retry (attempt + 1)
             else if e = EmptyDataError then get_data_loop read_csv max_retry (attempt + 1)
             else Inl e)
      else Inr None)"
  by pat_completeness auto
termination
  by (relation "measure (\<lambda>(r, m, a). nat (m - int a))") auto

definition get_data :: "(nat \<Rightarrow> py_error + 'd) \<Rightarrow> int \<Rightarrow> py_error + 'd option" where
  "get_data read_csv max_retry = get_data_loop read_csv max_retry 0"

section \<open>Vector mean direction: \<open>calc_degrees\<close> (Postprocess.py)\<close>

text \<open>
  \<open>np.arctan2\<close> on finite arguments. For \<open>y = 0\<close> and \<open>x < 0\<close> IEEE arithmetic returns
  \<open>\<pi>\<close> or \<open>-\<pi>\<close> by the sign of the zero; both are the same angle modulo 360 degrees, and the
  model returns \<open>\<pi>\<close>.
\<close>

definition arctan2 :: "real \<Rightarrow> real \<Rightarrow> real" where
  "arctan2 y x =
     (if 0 < x then arctan (y / x)
      else if x < 0 \<and> 0 \<le> y then arctan (y / x) + pi
      else if x < 0 \<and> y < 0 then arctan (y / x) - pi
      else if 0 < y then pi / 2
      else if y < 0 then - (pi / 2)
      else 0)"

definition degrees :: "real \<Rightarrow> real" where
  "degrees x = x * 180 / pi"

text \<open>Python's and numpy's \<open>%\<close> on floats: the result has the sign of the divisor.\<close>

definition py_mod :: "real \<Rightarrow> real \<Rightarrow> real" where
  "py_mod x m = x - m * of_int \<lfloor>x / m\<rfloor>"

text \<open>\<open>np.rint\<close>: round to the nearest integer, ties to the even one.\<close>

definition rint :: "real \<Rightarrow> int" where
  "rint x =
     (let f = \<lfloor>x\<rfloor>; d = x - of_int f
      in if d < 1 / 2 then f
         else if 1 / 2 < d then f + 1
         else if even f then f else f + 1)"

text \<open>\<open>Series.round(n)\<close> for \<open>n \<ge> 0\<close> decimals: scale, \<open>rint\<close>, scale back.\<close>

definition np_round :: "nat \<Rightarrow> real \<Rightarrow> real" where
  "np_round n x = of_int (rint (x * 10 ^ n)) / 10 ^ n"

definition round_cell :: "nat \<Rightarrow> cell \<Rightarrow> cell" where
  "round_cell n c = map_option (np_round n) c"

text \<open>
  One element of \<open>calc_degrees\<close>. A NaN component makes \<open>condition\<close> false and the angle NaN.
  Otherwise the angle is computed and then overwritten by NaN where \<open>u == 0\<close> and \<open>v == 0\<close>.
\<close>

fun calc_degrees1 :: "cell \<Rightarrow> cell \<Rightarrow> cell" where
  "calc_degrees1 (Some u) (Some v) =
     (let condition = (u = 0 \<and> v = 0);
          angle = np_round 0 (py_mod (degrees (arctan2 (- v) (- u))) 360)
      in if condition then None else Some angle)"
| "calc_degrees1 _ _ = None"

text \<open>
  A resampled series is a list of (minute, cell) rows. \<open>calc_degrees\<close> receives two series
  resampled from the same frame, hence with the same index, and works row by row.
\<close>

type_synonym 'a series = "(int \<times> 'a) list"

definition calc_degrees :: "cell series \<Rightarrow> cell series \<Rightarrow> cell series" where
  "calc_degrees u v = map (\<lambda>((m, a), (m', b)). (m, calc_degrees1 a b)) (zip u v)"

section \<open>Aggregation engine (Postprocess.py)\<close>

text \<open>
  A row of a raw partition file, as \<open>pd.read_csv\<close> returns it. \<open>DateTime\<close> is the timestamp in
  whole seconds (the file has second resolution); a NaN cell is \<open>None\<close>.
\<close>

record raw_row =
  DateTime :: int
  WindDirection :: "int option"
  WindSpeed :: cell
  U :: cell
  V :: cell

text \<open>A column of the frame after \<open>set_index('DateTime')\<close>: the cells with their timestamps, in row order.\<close>

definition column :: "(raw_row \<Rightarrow> cell) \<Rightarrow> raw_row list \<Rightarrow> cell series" where
  "column f df = map (\<lambda>r. (DateTime r, f r)) df"

definition mean :: "real list \<Rightarrow> real" where
  "mean xs = sum_list xs / real (length xs)"

definition maximum :: "real list \<Rightarrow> real" where
  "maximum xs = Max (set xs)"

text \<open>
  \<open>rolling(window = w).f()\<close> with an integer window is positional and has
  \<open>min_periods = w\<close>: the result at position \<open>i\<close> is NaN unless the window holds
  \<open>w\<close> rows (\<open>i + 1 \<ge> w\<close>) and none of them is NaN; then it is \<open>f\<close> of the last \<open>w\<close> values.
\<close>

definition rolling_at :: "(real list \<Rightarrow> real) \<Rightarrow> nat \<Rightarrow> cell list \<Rightarrow> nat \<Rightarrow> cell" where
  "rolling_at f w xs i =
     (if w = 0 \<or> i + 1 < w then None
      else map_option f (those (take w (drop (i + 1 - w) xs))))"

definition rolling :: "(real list \<Rightarrow> real) \<Rightarrow> nat \<Rightarrow> cell series \<Rightarrow> cell series" where
  "rolling f w s = zip (map fst s) (map (rolling_at f w (map snd s)) [0..<length s])"

text \<open>The values of a list of cells that are not NaN.\<close>

fun present :: "cell list \<Rightarrow> real list" where
  "present [] = []"
| "present (None # cs) = present cs"
| "present (Some x # cs) = x # present cs"

text \<open>The block aggregations of \<open>resample\<close> skip NaN; a block with no value gives NaN.\<close>

definition nan_mean :: "cell list \<Rightarrow> cell" where
  "nan_mean cs = (if present cs = [] then None else Some (mean (present cs)))"

definition nan_max :: "cell list \<Rightarrow> cell" where
  "nan_max cs = (if present cs = [] then None else Some (maximum (present cs)))"

text \<open>
  \<open>resample("1min").agg()\<close>: one row for every calendar minute from the earliest to the
  latest timestamp of the series, holding the aggregate of the cells whose timestamp falls
  in that minute. The row is labelled with the minute (timestamp \<open>60 * m\<close>).
\<close>

definition minute_of :: "int \<Rightarrow> int" where
  "minute_of t = t div 60"

definition bucket :: "cell series \<Rightarrow> int \<Rightarrow> cell list" where
  "bucket s m = map snd (filter (\<lambda>(t, c). minute_of t = m) s)"

definition resample :: "(cell list \<Rightarrow> cell) \<Rightarrow> cell series \<Rightarrow> cell series" where
  "resample agg s =
     (if s = [] then []
      else map (\<lambda>m. (m, agg (bucket s m)))
             [Min (set (map (minute_of \<circ> fst) s)) .. Max (set (map (minute_of \<circ> fst) s))])"

definition round_series :: "nat \<Rightarrow> cell series \<Rightarrow> cell series" where
  "round_series n s = map (\<lambda>(m, c). (m, round_cell n c)) s"

definition roll_avg :: "cell series \<Rightarrow> nat \<Rightarrow> cell series" where
  "roll_avg df window = round_series 4 (resample nan_mean (rolling mean window df))"

definition roll_gust :: "cell series \<Rightarrow> nat \<Rightarrow> cell series" where
  "roll_gust df window = resample nan_max (rolling maximum window df)"

text \<open>The assignments of the main loop of Postprocess.py, one definition per assigned name.\<close>

definition three_second_gust :: "raw_row list \<Rightarrow> cell series" where
  "three_second_gust df = round_series 4 (rolling mean 3 (column WindSpeed df))"


definition u_mean_1min :: "raw_row list \<Rightarrow> cell series" where
  "u_mean_1min df = round_series 4 (resample nan_mean (column U df))"

definition v_mean_1min :: "raw_row list \<Rightarrow> cell series" where
  "v_mean_1min df = round_series 4 (resample nan_mean (column V df))"

definition deg_result_1min :: "raw_row list \<Rightarrow> cell series" where
  "deg_result_1min df = calc_degrees (u_mean_1min df) (v_mean_1min df)"

definition gst_1min :: "raw_row list \<Rightarrow> cell series" where
  "gst_1min df = resample nan_max (three_second_gust df)"


definition u_mean_10min :: "raw_row list \<Rightarrow> cell series" where
  "u_mean_10min df = roll_avg (column U df) 600"

definition v_mean_10min :: "raw_row list \<Rightarrow> cell series" where
  "v_mean_10min df = roll_avg (column V df) 600"

definition deg_result_10min :: "raw_row list \<Rightarrow> cell series" where
  "deg_result_10min df = calc_degrees (u_mean_10min df) (v_mean_10min df)"

definition gst_10min :: "raw_row list \<Rightarrow> cell series" where
  "gst_10min df = roll_gust (three_second_gust df) 600"


definition u_mean_1hour :: "raw_row list \<Rightarrow> cell series" where
  "u_mean_1hour df = roll_avg (column U df) 3600"

definition v_mean_1hour :: "raw_row list \<Rightarrow> cell series" where
  "v_mean_1hour df = roll_avg (column V df) 3600"

definition deg_result_1hour :: "raw_row list \<Rightarrow> cell series" where
  "deg_result_1hour df = calc_degrees (u_mean_1hour df) (v_mean_1hour df)"

definition gst_1hour :: "raw_row list \<Rightarrow> cell series" where
  "gst_1hour df = roll_gust (three_second_gust df) 600"

subsection \<open>The library arithmetic as a parameter\<close>











subsection \<open>The two-stage mean as the specification words it\<close>




subsection \<open>The scalar mean speed as the code computes it, minute by minute\<close>



subsection \<open>Concrete raw files\<close>

text \<open>
  \<open>n\<close> seconds of steady wind from 180 degrees at 5 m/s, one row per second from second 0:
  \<open>u = -5 cos 180\<degree> = 5\<close> and \<open>v = -5 sin 180\<degree> = 0\<close>.
\<close>

definition steady_rows :: "nat \<Rightarrow> raw_row list" where
  "steady_rows n =
     map (\<lambda>t. \<lparr>DateTime = int t, WindDirection = Some 180, WindSpeed = Some 5,
                U = Some 5, V = Some 0\<rparr>) [0..<n]"

text \<open>
  Every row that contributes to a window of \<open>w\<close> rows ending in minute \<open>m\<close> has the
  components \<open>u\<close> and \<open>v\<close>.
\<close>

definition full_windows :: "nat \<Rightarrow> raw_row list \<Rightarrow> int \<Rightarrow> real \<Rightarrow> real \<Rightarrow> bool" where
  "full_windows w df m u v =
     list_all (\<lambda>k. minute_of (DateTime (df ! k)) = m \<and> w \<le> k + 1 \<longrightarrow>
                  list_all (\<lambda>r. U r = Some u \<and> V r = Some v) (take w (drop (k + 1 - w) df)))
       [0..<length df]"

text \<open>
  Eleven minutes of the same steady wind, seconds 0 to 659, with one placeholder row at
  second 300.
\<close>

definition gap_rows :: "raw_row list" where
  "gap_rows =
     (steady_rows 660)
       [300 := \<lparr>DateTime = 300, WindDirection = None, WindSpeed = None, U = None, V = None\<rparr>]"

text \<open>One minute of calm followed by a single second at 60 m/s: 61 rows, seconds 0 to 60.\<close>

definition step_rows :: "raw_row list" where
  "step_rows =
     map (\<lambda>t. \<lparr>DateTime = int t, WindDirection = Some 0,
                WindSpeed = Some (if t < 60 then 0 else 60),
                U = Some (if t < 60 then 0 else - 60), V = Some 0\<rparr>) [0..<61]"

section \<open>Ingestion (full\_code.py)\<close>

subsection \<open>Clock, files and the global variables\<close>

text \<open>
  A \<open>datetime\<close> is a number of microseconds. \<open>strftime("%Y-%m-%d %H:%M:%S")\<close> and
  \<open>str(timestamp).split(".")[0]\<close> both drop the microseconds: a formatted timestamp is
  modelled as the number of whole seconds, the unit of \<open>DateTime\<close> in \<open>raw_row\<close>.
  A calendar date is a number of days.
\<close>

type_synonym datetime = int

definition strftime :: "datetime \<Rightarrow> int" where
  "strftime t = t div 1000000"

definition timedelta_seconds :: "int \<Rightarrow> int" where
  "timedelta_seconds i = i * 1000000"

text \<open>\<open>int(duration_calc.total_seconds())\<close>: whole seconds, truncated towards zero.\<close>

definition int_total_seconds :: "int \<Rightarrow> int" where
  "int_total_seconds d = (if 0 \<le> d then d div 1000000 else - ((- d) div 1000000))"

record outage_row =
  off_stamp :: int
  on_stamp :: int
  duration_us :: int

text \<open>
  The module-level variables of full\_code.py and the two folders of files. A file is the
  list of its rows below the header; \<open>None\<close> is a path that does not exist. The files of a
  folder are named by date, so the date stands for the path. \<open>sensor_timestampoff\<close> is
  unbound (\<open>None\<close>) until the first Online-to-Offline transition assigns it.

  A statement that raises leaves the variables and the files as they are at that
  moment: a function of the script that can raise returns \<open>(py_error \<times> state) + 'a\<close>,
  where \<open>Inl (e, st)\<close> is the exception \<open>e\<close> leaving the function in the state \<open>st\<close>.
\<close>

record state =
  time_list :: "int list"
  wind_direction :: "int option list"
  wind_speed :: "cell list"
  w_radian_list :: "cell list"
  u_comp_list :: "cell list"
  v_comp_list :: "cell list"
  sensor_status :: bool
  sensor_off_timestamp :: "int list"
  sensor_on_timestamp :: "int list"
  duration :: "int list"
  sensor_off_count :: nat
  sensor_timestampoff :: "datetime option"
  previous_date :: int
  raw_files :: "int \<rightharpoonup> raw_row list"
  status_files :: "int \<rightharpoonup> outage_row list"

text \<open>\<open>df.to_csv(path, mode = 'a', header = not os.path.exists(path))\<close>\<close>

definition append_csv :: "('k \<rightharpoonup> 'r list) \<Rightarrow> 'k \<Rightarrow> 'r list \<Rightarrow> ('k \<rightharpoonup> 'r list)" where
  "append_csv files path rows =
     files(path \<mapsto> (case files path of None \<Rightarrow> rows | Some old \<Rightarrow> old @ rows))"

subsection \<open>\<open>update_blank\<close> and \<open>check_sensor\<close>\<close>

definition update_blank :: "datetime \<Rightarrow> state \<Rightarrow> state" where
  "update_blank timestamp st =
     st\<lparr>time_list := time_list st @ [strftime timestamp],
        wind_direction := wind_direction st @ [None],
        wind_speed := wind_speed st @ [None],
        u_comp_list := u_comp_list st @ [None],
        v_comp_list := v_comp_list st @ [None]\<rparr>"

text \<open>
  \<open>for i in range(int(duration_seconds)): update_blank(sensor_timestampoff + timedelta(seconds = i))\<close>
\<close>

definition backfill :: "datetime \<Rightarrow> int \<Rightarrow> state \<Rightarrow> state" where
  "backfill sensor_off duration_calc st =
     fold (\<lambda>i. update_blank (sensor_off + timedelta_seconds (int i)))
       [0..<nat (int_total_seconds duration_calc)] st"

text \<open>\<open>pd.DataFrame\<close> of three lists: \<open>ValueError\<close> unless they have the same length.\<close>

definition df_sensor :: "int list \<Rightarrow> int list \<Rightarrow> int list \<Rightarrow> py_error + outage_row list" where
  "df_sensor offs ons durs =
     (if length offs = length ons \<and> length ons = length durs
      then Inr (map (\<lambda>(a, b, c). \<lparr>off_stamp = a, on_stamp = b, duration_us = c\<rparr>)
                  (zip offs (zip ons durs)))
      else Inl ValueError)"

text \<open>
  \<open>check_sensor(data, sensor_path)\<close>; \<open>now\<close> is the value \<open>datetime.datetime.now()\<close> returns
  inside the call. The function returns \<open>True\<close> when a frame was read and falls off its end
  (\<open>None\<close>, falsy, here \<open>False\<close>) otherwise. The printed messages are left out.
\<close>

definition check_sensor ::
  "datetime \<Rightarrow> string \<Rightarrow> int \<Rightarrow> state \<Rightarrow> (py_error \<times> state) + (bool \<times> state)" where
  "check_sensor now data sensor_path st =
     (if data \<noteq> [] then
        (if \<not> sensor_status st then
           (let st1 = st\<lparr>sensor_on_timestamp := sensor_on_timestamp st @ [strftime now]\<rparr> in
            case sensor_timestampoff st1 of
              None \<Rightarrow> Inl (NameError, st1)
            | Some sensor_off \<Rightarrow>
                (let duration_calc = now - sensor_off;
                     st2 = st1\<lparr>duration := duration st1 @ [duration_calc]\<rparr> in
                 case df_sensor (sensor_off_timestamp st2) (sensor_on_timestamp st2) (duration st2) of
                   Inl e \<Rightarrow> Inl (e, st2)
                 | Inr rows \<Rightarrow>
                     (let st3 = st2\<lparr>status_files := append_csv (status_files st2) sensor_path rows\<rparr>;
                          st4 = (if sensor_off_timestamp st3 \<noteq> []
                                 then backfill sensor_off duration_calc st3 else st3)
                      in Inr (True, st4\<lparr>sensor_off_timestamp := [],
                                         sensor_on_timestamp := [],
                                         duration := [],
                                         sensor_status := True\<rparr>))))
         else Inr (True, st))
      else
        (if sensor_status st then
           (let st1 = st\<lparr>sensor_timestampoff := Some now,
                          sensor_off_timestamp := sensor_off_timestamp st @ [strftime now],
                          sensor_off_count := sensor_off_count st + 1\<rparr>
            in Inr (False, (update_blank now st1)\<lparr>sensor_status := False\<rparr>))
         else Inr (False, st)))"

subsection \<open>The main loop\<close>

text \<open>\<open>pd.DataFrame\<close> of the five buffers: \<open>ValueError\<close> unless they have the same length.\<close>

definition df_rd ::
  "int list \<Rightarrow> int option list \<Rightarrow> cell list \<Rightarrow> cell list \<Rightarrow> cell list \<Rightarrow> py_error + raw_row list" where
  "df_rd ts ds ss us vs =
     (if length ds = length ts \<and> length ss = length ts \<and> length us = length ts \<and> length vs = length ts
      then Inr (map (\<lambda>(t, d, s, u, v).
                  \<lparr>DateTime = t, WindDirection = d, WindSpeed = s, U = u, V = v\<rparr>)
                  (zip ts (zip ds (zip ss (zip us vs)))))
      else Inl ValueError)"

definition update_data :: "int \<Rightarrow> state \<Rightarrow> (py_error \<times> state) + state" where
  "update_data data_path st =
     (case df_rd (time_list st) (wind_direction st) (wind_speed st) (u_comp_list st) (v_comp_list st) of
        Inl e \<Rightarrow> Inl (e, st)
      | Inr rows \<Rightarrow>
          Inr (st\<lparr>raw_files := append_csv (raw_files st) data_path rows,
                  time_list := [], wind_direction := [], wind_speed := [],
                  u_comp_list := [], v_comp_list := []\<rparr>))"

definition create_csv :: "int \<Rightarrow> int \<Rightarrow> state \<Rightarrow> state" where
  "create_csv wind_path sensor_path st =
     (let st1 = (if raw_files st wind_path = None
                 then st\<lparr>raw_files := (raw_files st)(wind_path \<mapsto> [])\<rparr> else st)
      in if status_files st1 sensor_path = None
         then st1\<lparr>status_files := (status_files st1)(sensor_path \<mapsto> [])\<rparr> else st1)"

text \<open>
  The rows of the previous day's file from 23:00:00 to 23:59:59 of \<open>previous_date\<close>
  (both ends included), in file order.
\<close>

definition last_hour :: "int \<Rightarrow> raw_row list \<Rightarrow> raw_row list" where
  "last_hour prev pday_df =
     filter (\<lambda>r. prev * 86400 + 82800 \<le> DateTime r \<and> DateTime r \<le> prev * 86400 + 86399) pday_df"

text \<open>
  Lines 300 to 319: the guard \<open>current_date != previous_date\<close>, the two \<open>pd.read_csv\<close> calls
  (\<open>FileNotFoundError\<close> on a missing path), the rewrite of the new day's file and the
  assignment \<open>previous_date = current_date\<close>. Nothing in the loop catches the exception.
  Both reads come before the write, so a failed read leaves the state as it was.
\<close>

definition rollover_block :: "int \<Rightarrow> state \<Rightarrow> (py_error \<times> state) + state" where
  "rollover_block current_date st =
     (if current_date \<noteq> previous_date st then
        (case raw_files st (previous_date st) of
           None \<Rightarrow> Inl (FileNotFoundError, st)
         | Some pday_df \<Rightarrow>
             (case raw_files st current_date of
                None \<Rightarrow> Inl (FileNotFoundError, st)
              | Some new_day_df \<Rightarrow>
                  Inr (st\<lparr>raw_files := (raw_files st)(current_date \<mapsto>
                             last_hour (previous_date st) pday_df @ new_day_df),
                          previous_date := current_date\<rparr>)))
      else Inr st)"

text \<open>
  The Python built-ins the decode path calls, as parameters of the model:
  \<open>decode_strip\<close> is \<open>raw_data.decode().strip()\<close> (\<open>UnicodeDecodeError\<close> or the text),
  \<open>py_int\<close> is \<open>int(s)\<close> and \<open>py_float\<close> is \<open>float(s)\<close>, \<open>None\<close> where they raise \<open>ValueError\<close>.
\<close>

record builtins =
  decode_strip :: "string \<Rightarrow> py_error + string"
  py_int :: "string \<Rightarrow> int option"
  py_float :: "string \<Rightarrow> cell option"

text \<open>\<open>text.split(sep)\<close> for a one-character separator: never an empty list.\<close>

fun split_on :: "char \<Rightarrow> string \<Rightarrow> string list" where
  "split_on sep [] = [[]]"
| "split_on sep (c # cs) =
     (if c = sep then [] # split_on sep cs
      else (case split_on sep cs of
              w # ws \<Rightarrow> (c # w) # ws
            | [] \<Rightarrow> [[c]]))"

text \<open>\<open>xs[i]\<close> for a non-negative index.\<close>

definition py_index :: "'a list \<Rightarrow> nat \<Rightarrow> py_error + 'a" where
  "py_index xs i = (if i < length xs then Inr (xs ! i) else Inl IndexError)"

definition radians :: "real \<Rightarrow> real" where
  "radians x = x * pi / 180"

text \<open>
  What lines 324 to 340 compute from a frame, in the order the statements can raise: the
  exception, or the decoded direction, speed, angle in radians and the two components
  rounded to 4 decimals. A frame is malformed when this is an exception.
\<close>

definition decode_frame :: "builtins \<Rightarrow> string \<Rightarrow> py_error + (int \<times> cell \<times> cell \<times> cell \<times> cell)" where
  "decode_frame B raw =
     (case decode_strip B raw of
        Inl e \<Rightarrow> Inl e
      | Inr text \<Rightarrow>
          (let data_split = split_on CHR '','' text in
           case py_index data_split 1 of
             Inl e \<Rightarrow> Inl e
           | Inr wd \<Rightarrow>
               (case py_int B wd of
                  None \<Rightarrow> Inl ValueError
                | Some direction \<Rightarrow>
                    (case py_index data_split 3 of
                       Inl e \<Rightarrow> Inl e
                     | Inr ws \<Rightarrow>
                         (case py_float B ws of
                            None \<Rightarrow> Inl ValueError
                          | Some speed \<Rightarrow>
                              (case py_float B wd of
                                 None \<Rightarrow> Inl ValueError
                               | Some wdf \<Rightarrow>
                                   (let w_radian = map_option radians wdf;
                                        u_comp = (case (speed, w_radian) of
                                                    (Some s, Some w) \<Rightarrow> Some (- s * cos w)
                                                  | _ \<Rightarrow> None);
                                        v_comp = (case (speed, w_radian) of
                                                    (Some s, Some w) \<Rightarrow> Some (- s * sin w)
                                                  | _ \<Rightarrow> None)
                                    in Inr (direction, speed, w_radian,
                                            round_cell 4 u_comp, round_cell 4 v_comp))))))))"

text \<open>
  Lines 324 to 344 as the statements they are: each value is appended to its buffer as
  soon as it is computed, so an exception leaves the buffers with the values appended
  before it; the timestamp is appended last. No statement here writes a file.
\<close>

definition decode_and_append ::
  "builtins \<Rightarrow> string \<Rightarrow> datetime \<Rightarrow> state \<Rightarrow> (py_error \<times> state) + state" where
  "decode_and_append B raw now st =
     (case decode_strip B raw of
        Inl e \<Rightarrow> Inl (e, st)
      | Inr text \<Rightarrow>
          (let data_split = split_on CHR '','' text in
           case py_index data_split 1 of
             Inl e \<Rightarrow> Inl (e, st)
           | Inr wd \<Rightarrow>
               (case py_int B wd of
                  None \<Rightarrow> Inl (ValueError, st)
                | Some direction \<Rightarrow>
                    (let st1 = st\<lparr>wind_direction := wind_direction st @ [Some direction]\<rparr> in
                     case py_index data_split 3 of
                       Inl e \<Rightarrow> Inl (e, st1)
                     | Inr ws \<Rightarrow>
                         (case py_float B ws of
                            None \<Rightarrow> Inl (ValueError, st1)
                          | Some speed \<Rightarrow>
                              (let st2 = st1\<lparr>wind_speed := wind_speed st1 @ [speed]\<rparr> in
                               case py_float B wd of
                                 None \<Rightarrow> Inl (ValueError, st2)
                               | Some wdf \<Rightarrow>
                                   (let w_radian = map_option radians wdf;
                                        st3 = st2\<lparr>w_radian_list := w_radian_list st2 @ [w_radian]\<rparr>;
                                        u_comp = (case (speed, w_radian) of
                                                    (Some s, Some w) \<Rightarrow> Some (- s * cos w)
                                                  | _ \<Rightarrow> None);
                                        st4 = st3\<lparr>u_comp_list := u_comp_list st3 @ [round_cell 4 u_comp]\<rparr>;
                                        v_comp = (case (speed, w_radian) of
                                                    (Some s, Some w) \<Rightarrow> Some (- s * sin w)
                                                  | _ \<Rightarrow> None);
                                        st5 = st4\<lparr>v_comp_list := v_comp_list st4 @ [round_cell 4 v_comp]\<rparr>
                                    in Inr (st5\<lparr>time_list := time_list st5 @ [strftime now]\<rparr>))))))))"

text \<open>
  What one pass through the body of \<open>while True\<close> reads from outside: the date
  (\<open>datetime.date.today()\<close>, taken to be the same at lines 293 to 295), the bytes
  \<open>ser.readline()\<close> returns (empty on timeout), and the clock inside \<open>check_sensor\<close> and at
  line 343.
\<close>

record tick =
  today :: int
  raw_data :: string
  now_check :: datetime
  now_stamp :: datetime

text \<open>
  One pass through the loop body: \<open>create_csv\<close>, the rollover block, \<open>check_sensor\<close> and,
  when it returns \<open>True\<close>, the decode statements and \<open>update_data\<close>. An exception other than
  \<open>KeyboardInterrupt\<close> is not caught by the \<open>try\<close> around the loop and ends the process:
  \<open>Inl (e, st)\<close>, with \<open>st\<close> the variables and the files as the process leaves them.
\<close>

definition loop_iteration :: "builtins \<Rightarrow> tick \<Rightarrow> state \<Rightarrow> (py_error \<times> state) + state" where
  "loop_iteration B tk st =
     (let current_date = today tk;
          st1 = create_csv current_date current_date st in
      case rollover_block current_date st1 of
        Inl raised \<Rightarrow> Inl raised
      | Inr st2 \<Rightarrow>
          (case check_sensor (now_check tk) (raw_data tk) current_date st2 of
             Inl raised \<Rightarrow> Inl raised
           | Inr (received, st3) \<Rightarrow>
               if received then
                 (case decode_and_append B (raw_data tk) (now_stamp tk) st3 of
                    Inl raised \<Rightarrow> Inl raised
                  | Inr st4 \<Rightarrow> update_data current_date st4)
               else Inr st3))"

text \<open>The loop over a finite sequence of polls; the first exception ends it.\<close>

fun run_loop :: "builtins \<Rightarrow> tick list \<Rightarrow> state \<Rightarrow> (py_error \<times> state) + state" where
  "run_loop B [] st = Inr st"
| "run_loop B (tk # tks) st =
     (case loop_iteration B tk st of
        Inl raised \<Rightarrow> Inl raised
      | Inr st' \<Rightarrow> run_loop B tks st')"

text \<open>The state a step leaves, whether it raised or returned.\<close>

definition state_of :: "(py_error \<times> state) + state \<Rightarrow> state" where
  "state_of res = (case res of Inl (e, st) \<Rightarrow> st | Inr st \<Rightarrow> st)"

text \<open>The variables as the script initialises them on \<open>start_date\<close>, over the files \<open>raw\<close> and \<open>status\<close>.\<close>

definition initial_state :: "int \<Rightarrow> (int \<rightharpoonup> raw_row list) \<Rightarrow> (int \<rightharpoonup> outage_row list) \<Rightarrow> state" where
  "initial_state start_date raw status =
     \<lparr>time_list = [], wind_direction = [], wind_speed = [], w_radian_list = [],
      u_comp_list = [], v_comp_list = [], sensor_status = True,
      sensor_off_timestamp = [], sensor_on_timestamp = [], duration = [],
      sensor_off_count = 0, sensor_timestampoff = None, previous_date = start_date,
      raw_files = raw, status_files = status\<rparr>"

subsection \<open>An instance of the built-ins for plain ASCII frames\<close>

text \<open>
  An instance of \<open>builtins\<close> on which the model can be run. It agrees with CPython on
  7-bit text whose numeric fields are an optional sign and decimal digits, with at most
  one decimal point for \<open>float\<close>, possibly surrounded by white space: \<open>int\<close> and \<open>float\<close>
  strip the white space that \<open>str.strip\<close> strips. Exponents, underscores, \<open>inf\<close>, \<open>nan\<close> and
  multi-byte characters are outside this instance. The general theorems below hold for
  every \<open>builtins\<close>.
\<close>

text \<open>The 7-bit characters that \<open>str.isspace\<close> accepts.\<close>

definition is_space :: "char \<Rightarrow> bool" where
  "is_space c =
     (c \<in> set [CHR '' '', CHR 0x09, CHR 0x0A, CHR 0x0B, CHR 0x0C, CHR 0x0D,
               CHR 0x1C, CHR 0x1D, CHR 0x1E, CHR 0x1F])"

definition ascii_strip :: "string \<Rightarrow> string" where
  "ascii_strip s = rev (dropWhile is_space (rev (dropWhile is_space s)))"

definition ascii_decode_strip :: "string \<Rightarrow> py_error + string" where
  "ascii_decode_strip raw =
     (if list_all (\<lambda>c. (of_char c :: nat) < 128) raw then Inr (ascii_strip raw)
      else Inl UnicodeDecodeError)"

fun digits_value :: "nat \<Rightarrow> string \<Rightarrow> nat option" where
  "digits_value acc [] = Some acc"
| "digits_value acc (c # cs) =
     (let n = (of_char c :: nat)
      in if 48 \<le> n \<and> n \<le> 57 then digits_value (10 * acc + (n - 48)) cs else None)"

definition ascii_nat :: "string \<Rightarrow> nat option" where
  "ascii_nat s = (if s = [] then None else digits_value 0 s)"

text \<open>An optional leading sign: whether the number is negative, and the rest of the text.\<close>

fun split_sign :: "string \<Rightarrow> bool \<times> string" where
  "split_sign [] = (False, [])"
| "split_sign (c # cs) =
     (if c = CHR ''-'' then (True, cs)
      else if c = CHR ''+'' then (False, cs)
      else (False, c # cs))"

definition ascii_int :: "string \<Rightarrow> int option" where
  "ascii_int s =
     (case split_sign (ascii_strip s) of
        (negative, digits) \<Rightarrow>
          map_option (\<lambda>n. if negative then - int n else int n) (ascii_nat digits))"

text \<open>
  \<open>float\<close> also accepts an empty integer part or an empty fraction, but not both:
  \<open>5.\<close> and \<open>.5\<close> are numbers, \<open>.\<close> is not.
\<close>

definition ascii_float :: "string \<Rightarrow> cell option" where
  "ascii_float s =
     (case split_sign (ascii_strip s) of
        (negative, digits) \<Rightarrow>
          map_option (\<lambda>x. Some (if negative then - x else x))
            (case split_on CHR ''.'' digits of
               [a] \<Rightarrow> map_option real (ascii_nat a)
             | [a, b] \<Rightarrow>
                 (if a = [] \<and> b = [] then None
                  else (case (digits_value 0 a, digits_value 0 b) of
                          (Some x, Some y) \<Rightarrow> Some (real x + real y / 10 ^ length b)
                        | _ \<Rightarrow> None))
             | _ \<Rightarrow> None))"

definition ascii_runtime :: builtins where
  "ascii_runtime =
     \<lparr>decode_strip = ascii_decode_strip, py_int = ascii_int, py_float = ascii_float\<rparr>"

text \<open>A placeholder row: every measured field is NaN.\<close>

definition is_placeholder :: "raw_row \<Rightarrow> bool" where
  "is_placeholder r =
     (WindDirection r = None \<and> WindSpeed r = None \<and> U r = None \<and> V r = None)"

subsection \<open>Concrete polls\<close>

text \<open>A frame as the sensor sends it, with its line ending.\<close>

definition nmea_frame :: string where
  "nmea_frame = ''$IIMWV,129,R,002.10,M,A*CC'' @ [CHR 0x0D, CHR 0x0A]"

text \<open>A pass of the loop that happens at the whole second \<open>sec\<close> and reads \<open>data\<close>.\<close>

definition poll :: "int \<Rightarrow> string \<Rightarrow> tick" where
  "poll sec data =
     \<lparr>today = sec div 86400, raw_data = data,
      now_check = sec * 1000000, now_stamp = sec * 1000000\<rparr>"

text \<open>The rows of the raw file of \<open>date\<close> after a run, \<open>None\<close> if the run raised or the file is missing.\<close>

definition stored :: "(py_error \<times> state) + state \<Rightarrow> int \<Rightarrow> raw_row list option" where
  "stored res date = (case res of Inl e \<Rightarrow> None | Inr st \<Rightarrow> raw_files st date)"

text \<open>A frame whose direction field is not a number.\<close>

definition bad_frame :: string where
  "bad_frame = ''$IIMWV,abc,R,002.10,M,A*CC'' @ [CHR 0x0D, CHR 0x0A]"

text \<open>
  Just after midnight of day 1: the file of day 0 holds a row of 00:01:40 and a row of
  23:59:59, the file of day 1 already holds the row of 00:00:00, and \<open>previous_date\<close> is
  still day 0.
\<close>

definition early_row :: raw_row where
  "early_row = \<lparr>DateTime = 100, WindDirection = Some 90, WindSpeed = Some 5,
                 U = Some 0, V = Some (- 5)\<rparr>"

definition carried_row :: raw_row where
  "carried_row = \<lparr>DateTime = 86399, WindDirection = Some 90, WindSpeed = Some 5,
                   U = Some 0, V = Some (- 5)\<rparr>"

definition new_row :: raw_row where
  "new_row = \<lparr>DateTime = 86400, WindDirection = Some 90, WindSpeed = Some 5,
               U = Some 0, V = Some (- 5)\<rparr>"

definition midnight_state :: state where
  "midnight_state =
     initial_state 0 [0 \<mapsto> [early_row, carried_row], 1 \<mapsto> [new_row]] Map.empty"

section \<open>Properties of the resilient reader\<close>

lemma get_data_loop_exhausted:
  "(\<forall>k. attempt \<le> k \<and> int k < max_retry \<longrightarrow> (\<exists>e. read_csv k = Inl e \<and> retryable e))
     \<Longrightarrow> get_data_loop read_csv max_retry attempt = Inr None"
proof (induction read_csv max_retry attempt rule: get_data_loop.induct)
  case (1 read_csv max_retry attempt)
  show ?case
  proof (cases "int attempt < max_retry")
    case False
    then show ?thesis by simp
  next
    case True
    from "1.prems" True obtain e where e: "read_csv attempt = Inl e" "retryable e"
      by blast
    have rest: "\<forall>k. attempt + 1 \<le> k \<and> int k < max_retry \<longrightarrow> (\<exists>e. read_csv k = Inl e \<and> retryable e)"
      using "1.prems" by auto
    show ?thesis
    proof (cases "e = FileNotFoundError")
      case fnf: True
      have "get_data_loop read_csv max_retry (attempt + 1) = Inr None"
        using "1.IH"(1) [OF True e(1) fnf rest] .
      then show ?thesis
        using True e fnf by (subst get_data_loop.simps) simp
    next
      case nfnf: False
      then have emp: "e = EmptyDataError"
        using e(2) by (simp add: retryable_def)
      have "get_data_loop read_csv max_retry (attempt + 1) = Inr None"
        using "1.IH"(2) [OF True e(1) nfnf emp rest] .
      then show ?thesis
        using True e nfnf emp by (subst get_data_loop.simps) simp
    qed
  qed
qed

lemma get_data_loop_propagates:
  "attempt \<le> k \<Longrightarrow> int k < max_retry \<Longrightarrow>
   (\<forall>j. attempt \<le> j \<and> j < k \<longrightarrow> (\<exists>e. read_csv j = Inl e \<and> retryable e)) \<Longrightarrow>
   read_csv k = Inl err \<Longrightarrow> \<not> retryable err \<Longrightarrow>
   get_data_loop read_csv max_retry attempt = Inl err"
proof (induction read_csv max_retry attempt rule: get_data_loop.induct)
  case (1 read_csv max_retry attempt)
  have lt: "int attempt < max_retry"
    using "1.prems"(1,2) by linarith
  show ?case
  proof (cases "attempt = k")
    case True
    then show ?thesis
      using lt "1.prems"(4,5) by (subst get_data_loop.simps) (simp add: retryable_def)
  next
    case False
    then have less: "attempt < k" and suc: "attempt + 1 \<le> k"
      using "1.prems"(1) by auto
    from "1.prems"(3) less obtain e where e: "read_csv attempt = Inl e" "retryable e"
      by blast
    have rest: "\<forall>j. attempt + 1 \<le> j \<and> j < k \<longrightarrow> (\<exists>e. read_csv j = Inl e \<and> retryable e)"
      using "1.prems"(3) by auto
    show ?thesis
    proof (cases "e = FileNotFoundError")
      case fnf: True
      have "get_data_loop read_csv max_retry (attempt + 1) = Inl err"
        using "1.IH"(1) [OF lt e(1) fnf suc "1.prems"(2) rest "1.prems"(4,5)] .
      then show ?thesis
        using lt e fnf by (subst get_data_loop.simps) simp
    next
      case nfnf: False
      then have emp: "e = EmptyDataError"
        using e(2) by (simp add: retryable_def)
      have "get_data_loop read_csv max_retry (attempt + 1) = Inl err"
        using "1.IH"(2) [OF lt e(1) nfnf emp suc "1.prems"(2) rest "1.prems"(4,5)] .
      then show ?thesis
        using lt e nfnf emp by (subst get_data_loop.simps) simp
    qed
  qed
qed

text \<open>
  Claim C10. If each of the \<open>max_retry\<close> read attempts of \<open>get_data\<close> fails with
  \<open>FileNotFoundError\<close> or \<open>EmptyDataError\<close>, the call returns \<open>None\<close> (no rows, no
  exception). If an attempt fails with any other exception after only retryable failures,
  that exception leaves \<open>get_data\<close> on that attempt.
\<close>

theorem get_data_exhausted_returns_None:
  "((\<forall>k. int k < max_retry \<longrightarrow>
        read_csv k = Inl FileNotFoundError \<or> read_csv k = Inl EmptyDataError)
      \<longrightarrow> get_data read_csv max_retry = Inr None)
   \<and> (\<forall>k err. int k < max_retry
        \<and> (\<forall>j<k. read_csv j = Inl FileNotFoundError \<or> read_csv j = Inl EmptyDataError)
        \<and> read_csv k = Inl err \<and> err \<noteq> FileNotFoundError \<and> err \<noteq> EmptyDataError
      \<longrightarrow> get_data read_csv max_retry = Inl err)"
proof (intro conjI impI allI)
  assume "\<forall>k. int k < max_retry \<longrightarrow>
    read_csv k = Inl FileNotFoundError \<or> read_csv k = Inl EmptyDataError"
  then have "\<forall>k. 0 \<le> k \<and> int k < max_retry \<longrightarrow> (\<exists>e. read_csv k = Inl e \<and> retryable e)"
    by (auto simp: retryable_def)
  then show "get_data read_csv max_retry = Inr None"
    unfolding get_data_def by (rule get_data_loop_exhausted)
next
  fix k err
  assume a: "int k < max_retry
    \<and> (\<forall>j<k. read_csv j = Inl FileNotFoundError \<or> read_csv j = Inl EmptyDataError)
    \<and> read_csv k = Inl err \<and> err \<noteq> FileNotFoundError \<and> err \<noteq> EmptyDataError"
  then have before: "\<forall>j. 0 \<le> j \<and> j < k \<longrightarrow> (\<exists>e. read_csv j = Inl e \<and> retryable e)"
    by (auto simp: retryable_def)
  have "\<not> retryable err"
    using a by (simp add: retryable_def)
  then show "get_data read_csv max_retry = Inl err"
    unfolding get_data_def
    using get_data_loop_propagates [of 0 k max_retry read_csv err] a before by simp
qed

theorem get_data_exhausted_returns_None_witness:
  "get_data (\<lambda>k. if even k then Inl FileNotFoundError else Inl EmptyDataError :: py_error + unit) 20
     = Inr None
   \<and> get_data (\<lambda>k. if k = 3 then Inl ValueError else Inl EmptyDataError :: py_error + unit) 20
     = Inl ValueError"
proof
  show "get_data (\<lambda>k. if even k then Inl FileNotFoundError else Inl EmptyDataError :: py_error + unit) 20
     = Inr None"
    using get_data_exhausted_returns_None
      [of 20 "\<lambda>k. if even k then Inl FileNotFoundError else Inl EmptyDataError :: py_error + unit"]
    by simp
next
  let ?r = "\<lambda>k::nat. if k = 3 then Inl ValueError else Inl EmptyDataError :: py_error + unit"
  have "int 3 < 20
    \<and> (\<forall>j<3. ?r j = Inl FileNotFoundError \<or> ?r j = Inl EmptyDataError)
    \<and> ?r 3 = Inl ValueError \<and> ValueError \<noteq> FileNotFoundError \<and> ValueError \<noteq> EmptyDataError"
    by simp
  then show "get_data ?r 20 = Inl ValueError"
    using get_data_exhausted_returns_None [of 20 ?r] by blast
qed

section \<open>Properties of \<open>calc_degrees\<close>\<close>

lemma calc_degrees_nth:
  "i < length u \<Longrightarrow> i < length v \<Longrightarrow>
   calc_degrees u v ! i = (fst (u ! i), calc_degrees1 (snd (u ! i)) (snd (v ! i)))"
  by (simp add: calc_degrees_def split_beta)

text \<open>
  Claim C9. In every minute bucket whose averaged components are both exactly 0, the
  direction reported by \<open>calc_degrees\<close> is absent (NaN), not a number.
\<close>

theorem calc_degrees_calm_absent:
  "i < length u \<Longrightarrow> i < length v \<Longrightarrow> snd (u ! i) = Some 0 \<Longrightarrow> snd (v ! i) = Some 0 \<Longrightarrow>
   snd (calc_degrees u v ! i) = None"
  by (simp add: calc_degrees_nth)

theorem calc_degrees_calm_absent_witness:
  "snd (calc_degrees [(0, Some 3), (1, Some 0)] [(0, Some 4), (1, Some 0)] ! 1) = None"
  using calc_degrees_calm_absent [of 1 "[(0, Some 3), (1, Some 0)]" "[(0, Some 4), (1, Some 0)]"]
  by simp

section \<open>Properties of the outage tracker\<close>

lemma fold_update_blank:
  "fold (\<lambda>i. update_blank (f i)) js st =
     st\<lparr>time_list := time_list st @ map (\<lambda>i. strftime (f i)) js,
        wind_direction := wind_direction st @ replicate (length js) None,
        wind_speed := wind_speed st @ replicate (length js) None,
        u_comp_list := u_comp_list st @ replicate (length js) None,
        v_comp_list := v_comp_list st @ replicate (length js) None\<rparr>"
  by (induction js arbitrary: st) (simp_all add: update_blank_def replicate_app_Cons_same)

lemma strftime_offset: "strftime (t + timedelta_seconds i) = strftime t + i"
  by (simp add: strftime_def timedelta_seconds_def)

text \<open>
  The backfill loop appends one placeholder for each whole second of the outage, stamped
  \<open>off\<close>, \<open>off + 1\<close>, ... in seconds: the first of them carries the second of the
  Online-to-Offline transition again.
\<close>

lemma backfill_closed:
  "backfill sensor_off d st =
     st\<lparr>time_list := time_list st @
          map (\<lambda>i. strftime sensor_off + int i) [0..<nat (int_total_seconds d)],
        wind_direction := wind_direction st @ replicate (nat (int_total_seconds d)) None,
        wind_speed := wind_speed st @ replicate (nat (int_total_seconds d)) None,
        u_comp_list := u_comp_list st @ replicate (nat (int_total_seconds d)) None,
        v_comp_list := v_comp_list st @ replicate (nat (int_total_seconds d)) None\<rparr>"
  by (simp add: backfill_def fold_update_blank strftime_offset)

text \<open>
  A whole outage, from any Online state with the three outage lists empty: the silent
  poll at \<open>off\<close> and the next frame at \<open>on\<close> together append the second of \<open>off\<close>
  and then the seconds \<open>off\<close>, \<open>off + 1\<close>, ... of the backfill, all as placeholders.
\<close>

lemma outage_cycle_time_list:
  assumes online: "sensor_status st"
    and empty: "sensor_off_timestamp st = []" "sensor_on_timestamp st = []" "duration st = []"
    and data: "data \<noteq> []"
  shows "\<exists>st1 st2.
           check_sensor off [] p st = Inr (False, st1)
         \<and> check_sensor on data p st1 = Inr (True, st2)
         \<and> time_list st2 = time_list st @ strftime off #
               map (\<lambda>i. strftime off + int i) [0..<nat (int_total_seconds (on - off))]
         \<and> wind_speed st2 = wind_speed st @ None #
               replicate (nat (int_total_seconds (on - off))) None"
  using assms
  by (simp add: check_sensor_def update_blank_def df_sensor_def backfill_closed Let_def)

lemma decode_nmea:
  "decode_frame ascii_runtime nmea_frame =
     Inr (129, Some (21 / 10), Some (radians 129),
          Some (np_round 4 (- (21 / 10) * cos (radians 129))),
          Some (np_round 4 (- (21 / 10) * sin (radians 129))))"
  by (simp add: decode_frame_def ascii_runtime_def nmea_frame_def py_index_def round_cell_def
      ascii_int_def ascii_float_def ascii_nat_def ascii_decode_strip_def ascii_strip_def
      is_space_def)

lemma nmea_nonempty: "nmea_frame \<noteq> []"
  by (simp add: nmea_frame_def)

text \<open>
  The decode statements of the loop and \<open>decode_frame\<close> agree: they return together, with
  the decoded values appended to the buffers, and they raise together, with the same
  exception; at a raise no file has been written and no timestamp has been buffered.
\<close>

lemma decode_and_append_returns:
  "decode_frame B raw = Inr (direction, speed, w_radian, u_comp, v_comp) \<Longrightarrow>
   decode_and_append B raw now st =
     Inr (st\<lparr>wind_direction := wind_direction st @ [Some direction],
             wind_speed := wind_speed st @ [speed],
             w_radian_list := w_radian_list st @ [w_radian],
             u_comp_list := u_comp_list st @ [u_comp],
             v_comp_list := v_comp_list st @ [v_comp],
             time_list := time_list st @ [strftime now]\<rparr>)"
  by (auto simp: decode_frame_def decode_and_append_def Let_def
      split: sum.splits option.splits)

lemma decode_and_append_raises:
  "decode_frame B raw = Inl e \<Longrightarrow>
   \<exists>st'. decode_and_append B raw now st = Inl (e, st')
        \<and> raw_files st' = raw_files st \<and> time_list st' = time_list st"
  by (auto simp: decode_frame_def decode_and_append_def Let_def
      split: sum.splits option.splits)

lemma decode_and_append_nmea:
  "decode_and_append ascii_runtime nmea_frame now st =
     Inr (st\<lparr>wind_direction := wind_direction st @ [Some 129],
             wind_speed := wind_speed st @ [Some (21 / 10)],
             w_radian_list := w_radian_list st @ [Some (radians 129)],
             u_comp_list := u_comp_list st @ [Some (np_round 4 (- (21 / 10) * cos (radians 129)))],
             v_comp_list := v_comp_list st @ [Some (np_round 4 (- (21 / 10) * sin (radians 129)))],
             time_list := time_list st @ [strftime now]\<rparr>)"
  by (rule decode_and_append_returns [OF decode_nmea])

lemma upt_0_2: "[0..<2] = [0, 1]"
  by (simp add: upt_rec)

lemma replicate_2: "replicate 2 x = [x, x]"
  by (simp add: numeral_2_eq_2)

text \<open>
  Claim C1, evaluated on the code. The script starts Online on day 0 with no files; the
  sensor answers at second 10, is silent at seconds 11 and 12 and answers again at second
  13. The raw file then holds the timestamps 10, 11, 11, 12, 13: second 11 is stored twice
  (once at the transition to Offline, once as the first backfilled second), so two
  consecutive stored samples are 0 seconds apart, not 1.
\<close>

theorem outage_duplicates_off_second:
  "map_option (map DateTime)
     (stored (run_loop ascii_runtime
                [poll 10 nmea_frame, poll 11 [], poll 12 [], poll 13 nmea_frame]
                (initial_state 0 Map.empty Map.empty)) 0)
   = Some [10, 11, 11, 12, 13]"
  by (simp add: stored_def poll_def initial_state_def loop_iteration_def create_csv_def
      rollover_block_def check_sensor_def decode_and_append_nmea nmea_nonempty update_data_def df_rd_def
      append_csv_def update_blank_def backfill_closed df_sensor_def strftime_def
      int_total_seconds_def Let_def upt_0_2 replicate_2)

text \<open>
  Claim C2, evaluated on the code. In the same run the outage lasts from second 11 to
  second 13, so \<open>D = 2\<close>; the placeholders stored for it are the three rows stamped
  11, 11, 12: \<open>D + 1\<close> rows, not \<open>D\<close>.
\<close>

theorem outage_inserts_one_placeholder_too_many:
  "int_total_seconds (now_check (poll 13 nmea_frame) - now_check (poll 11 [])) = 2
   \<and> map_option (\<lambda>rows. map DateTime (filter is_placeholder rows))
       (stored (run_loop ascii_runtime
                  [poll 10 nmea_frame, poll 11 [], poll 12 [], poll 13 nmea_frame]
                  (initial_state 0 Map.empty Map.empty)) 0)
     = Some [11, 11, 12]"
  by (simp add: stored_def poll_def initial_state_def loop_iteration_def create_csv_def
      rollover_block_def check_sensor_def decode_and_append_nmea nmea_nonempty update_data_def df_rd_def
      append_csv_def update_blank_def backfill_closed df_sensor_def strftime_def
      int_total_seconds_def Let_def upt_0_2 replicate_2 is_placeholder_def)

section \<open>Properties of the main loop\<close>

lemma create_csv_previous_date: "previous_date (create_csv w p st) = previous_date st"
  by (simp add: create_csv_def Let_def)

lemma create_csv_raw_other: "d \<noteq> w \<Longrightarrow> raw_files (create_csv w p st) d = raw_files st d"
  by (simp add: create_csv_def Let_def)

lemma decode_bad: "decode_frame ascii_runtime bad_frame = Inl ValueError"
  by (simp add: decode_frame_def ascii_runtime_def bad_frame_def py_index_def
      ascii_int_def ascii_nat_def ascii_decode_strip_def ascii_strip_def is_space_def)

lemma check_sensor_raised_raw_files:
  "check_sensor now data p st = Inl (e, st') \<Longrightarrow> raw_files st' = raw_files st"
  by (auto simp: check_sensor_def Let_def split: if_splits option.splits sum.splits)

lemma check_sensor_returned_raw_files:
  "check_sensor now data p st = Inr (received, st') \<Longrightarrow> raw_files st' = raw_files st"
  by (auto simp: check_sensor_def Let_def backfill_closed update_blank_def
      split: if_splits option.splits sum.splits)

lemma check_sensor_received:
  "data \<noteq> [] \<Longrightarrow> check_sensor now data p st = Inr (received, st') \<Longrightarrow> received"
  by (auto simp: check_sensor_def Let_def split: if_splits option.splits sum.splits)

text \<open>
  Claim C6, as the code has it. A frame that was received (non-empty) and whose decoding
  raises is not handled: the pass through the loop ends with an exception, which no
  \<open>except\<close> clause catches, so the process ends. The raw files it leaves are the ones the
  start of the pass left (after \<open>create_csv\<close> and the rollover block): no sample was
  appended. When the rollover and \<open>check_sensor\<close> succeed, the exception is the decoding
  exception itself and no timestamp was buffered either. Only an empty read is handled
  locally: the pass returns with the state \<open>check_sensor\<close> leaves.
\<close>

theorem malformed_frame_ends_loop:
  "(raw_data tk \<noteq> [] \<and> decode_frame B (raw_data tk) = Inl e \<longrightarrow>
      (\<exists>raised st'. loop_iteration B tk st = Inl (raised, st')
          \<and> raw_files st' =
              raw_files (state_of (rollover_block (today tk)
                                     (create_csv (today tk) (today tk) st))))
      \<and> (\<forall>st2 st3. rollover_block (today tk) (create_csv (today tk) (today tk) st) = Inr st2
            \<and> check_sensor (now_check tk) (raw_data tk) (today tk) st2 = Inr (True, st3)
          \<longrightarrow> (\<exists>st'. loop_iteration B tk st = Inl (e, st')
                  \<and> raw_files st' = raw_files st2 \<and> time_list st' = time_list st3)))
   \<and> (raw_data tk = [] \<longrightarrow>
        (\<forall>st2. rollover_block (today tk) (create_csv (today tk) (today tk) st) = Inr st2
          \<longrightarrow> loop_iteration B tk st
              = Inr (snd (projr (check_sensor (now_check tk) [] (today tk) st2)))))"
proof (intro conjI impI allI)
  assume a: "raw_data tk \<noteq> [] \<and> decode_frame B (raw_data tk) = Inl e"
  let ?start = "rollover_block (today tk) (create_csv (today tk) (today tk) st)"
  show "\<exists>raised st'. loop_iteration B tk st = Inl (raised, st')
          \<and> raw_files st' = raw_files (state_of ?start)"
  proof (cases ?start)
    case (Inl raised)
    then show ?thesis
      by (cases raised) (simp add: loop_iteration_def Let_def state_of_def)
  next
    case (Inr st2)
    show ?thesis
    proof (cases "check_sensor (now_check tk) (raw_data tk) (today tk) st2")
      case (Inl raised)
      obtain err st' where r: "raised = (err, st')" by (cases raised)
      have "raw_files st' = raw_files st2"
        using Inl r check_sensor_raised_raw_files by blast
      then show ?thesis
        using Inr Inl r by (simp add: loop_iteration_def Let_def state_of_def)
    next
      case inner: (Inr res)
      obtain received st3 where res: "res = (received, st3)" by (cases res)
      have rec: "received"
        using a inner res check_sensor_received by blast
      have files: "raw_files st3 = raw_files st2"
        using inner res check_sensor_returned_raw_files by blast
      obtain st' where d: "decode_and_append B (raw_data tk) (now_stamp tk) st3 = Inl (e, st')"
          "raw_files st' = raw_files st3"
        using decode_and_append_raises [of B "raw_data tk" e "now_stamp tk" st3] a by blast
      show ?thesis
        using Inr inner res rec files d by (simp add: loop_iteration_def Let_def state_of_def)
    qed
  qed
next
  fix st2 st3
  assume a: "raw_data tk \<noteq> [] \<and> decode_frame B (raw_data tk) = Inl e"
    and b: "rollover_block (today tk) (create_csv (today tk) (today tk) st) = Inr st2
            \<and> check_sensor (now_check tk) (raw_data tk) (today tk) st2 = Inr (True, st3)"
  have files: "raw_files st3 = raw_files st2"
    using b check_sensor_returned_raw_files by blast
  obtain st' where d: "decode_and_append B (raw_data tk) (now_stamp tk) st3 = Inl (e, st')"
      "raw_files st' = raw_files st3" "time_list st' = time_list st3"
    using decode_and_append_raises [of B "raw_data tk" e "now_stamp tk" st3] a by blast
  show "\<exists>st'. loop_iteration B tk st = Inl (e, st')
          \<and> raw_files st' = raw_files st2 \<and> time_list st' = time_list st3"
    using b d files by (simp add: loop_iteration_def Let_def)
next
  fix st2
  assume a: "raw_data tk = []"
    and b: "rollover_block (today tk) (create_csv (today tk) (today tk) st) = Inr st2"
  show "loop_iteration B tk st = Inr (snd (projr (check_sensor (now_check tk) [] (today tk) st2)))"
    using a b by (simp add: loop_iteration_def Let_def check_sensor_def)
qed

theorem malformed_frame_ends_loop_witness:
  "fst (projl (loop_iteration ascii_runtime (poll 10 bad_frame)
                 (initial_state 0 [0 \<mapsto> [early_row]] Map.empty))) = ValueError
   \<and> raw_files (state_of (loop_iteration ascii_runtime (poll 10 bad_frame)
                 (initial_state 0 [0 \<mapsto> [early_row]] Map.empty))) 0 = Some [early_row]
   \<and> time_list (state_of (loop_iteration ascii_runtime (poll 10 bad_frame)
                 (initial_state 0 [0 \<mapsto> [early_row]] Map.empty))) = []
   \<and> loop_iteration ascii_runtime (poll 10 []) (initial_state 0 [0 \<mapsto> [early_row]] Map.empty)
     = Inr (snd (projr (check_sensor 10000000 [] 0
              (create_csv 0 0 (initial_state 0 [0 \<mapsto> [early_row]] Map.empty)))))"
proof -
  let ?st = "initial_state 0 [0 \<mapsto> [early_row]] Map.empty"
  let ?st2 = "create_csv 0 0 ?st"
  have ne: "raw_data (poll 10 bad_frame) \<noteq> []"
    by (simp add: poll_def bad_frame_def)
  have dec: "decode_frame ascii_runtime (raw_data (poll 10 bad_frame)) = Inl ValueError"
    by (simp add: poll_def decode_bad)
  have roll: "rollover_block (today (poll 10 bad_frame))
      (create_csv (today (poll 10 bad_frame)) (today (poll 10 bad_frame)) ?st) = Inr ?st2"
    by (simp add: poll_def rollover_block_def create_csv_def initial_state_def Let_def)
  have chk: "check_sensor (now_check (poll 10 bad_frame)) (raw_data (poll 10 bad_frame))
      (today (poll 10 bad_frame)) ?st2 = Inr (True, ?st2)"
    using ne by (simp add: check_sensor_def poll_def create_csv_def initial_state_def Let_def)
  have "\<exists>st'. loop_iteration ascii_runtime (poll 10 bad_frame) ?st = Inl (ValueError, st')
          \<and> raw_files st' = raw_files ?st2 \<and> time_list st' = time_list ?st2"
    using malformed_frame_ends_loop [of "poll 10 bad_frame" ascii_runtime ValueError ?st]
      ne dec roll chk by blast
  then obtain st' where st':
      "loop_iteration ascii_runtime (poll 10 bad_frame) ?st = Inl (ValueError, st')"
      "raw_files st' = raw_files ?st2" "time_list st' = time_list ?st2"
    by blast
  have files: "raw_files ?st2 0 = Some [early_row]" and buf: "time_list ?st2 = []"
    by (simp_all add: create_csv_def initial_state_def Let_def)
  have roll': "rollover_block (today (poll 10 []))
      (create_csv (today (poll 10 [])) (today (poll 10 [])) ?st) = Inr ?st2"
    by (simp add: poll_def rollover_block_def create_csv_def initial_state_def Let_def)
  have "raw_data (poll 10 []) = []" by (simp add: poll_def)
  then have "loop_iteration ascii_runtime (poll 10 []) ?st
      = Inr (snd (projr (check_sensor (now_check (poll 10 [])) [] (today (poll 10 [])) ?st2)))"
    using malformed_frame_ends_loop [of "poll 10 []" ascii_runtime ValueError ?st] roll' by blast
  then have empty: "loop_iteration ascii_runtime (poll 10 []) ?st
     = Inr (snd (projr (check_sensor 10000000 [] 0 ?st2)))"
    by (simp add: poll_def)
  show ?thesis
    using st' files buf empty by (simp add: state_of_def)
qed

text \<open>
  Claim C6 as stated fails: the frame \<open>$IIMWV\<close>, which has no second field, ends the
  loop with an uncaught \<open>IndexError\<close> instead of being dropped.
\<close>

theorem malformed_frame_counterexample:
  "loop_iteration ascii_runtime (poll 10 ''$IIMWV'') (initial_state 0 Map.empty Map.empty)
     = Inl (IndexError, create_csv 0 0 (initial_state 0 Map.empty Map.empty))"
  by (simp add: loop_iteration_def rollover_block_def create_csv_def poll_def initial_state_def
      check_sensor_def decode_and_append_def ascii_runtime_def py_index_def
      ascii_decode_strip_def ascii_strip_def is_space_def Let_def)

text \<open>
  The same on a frame that follows an outage: the sensor answers at second 10, is silent
  at second 11 and sends a malformed frame at second 13. The process ends with the
  placeholders of the outage still in the buffers; the raw file holds the row of second
  10 only.
\<close>

lemma decode_and_append_bad:
  "decode_and_append ascii_runtime bad_frame now st = Inl (ValueError, st)"
  by (simp add: decode_and_append_def ascii_runtime_def bad_frame_def py_index_def
      ascii_int_def ascii_nat_def ascii_decode_strip_def ascii_strip_def is_space_def)

lemma bad_nonempty: "bad_frame \<noteq> []"
  by (simp add: bad_frame_def)

lemma malformed_frame_after_outage:
  "map_option (map DateTime)
     (raw_files (state_of (run_loop ascii_runtime
        [poll 10 nmea_frame, poll 11 [], poll 13 bad_frame]
        (initial_state 0 Map.empty Map.empty))) 0) = Some [10]
   \<and> time_list (state_of (run_loop ascii_runtime
        [poll 10 nmea_frame, poll 11 [], poll 13 bad_frame]
        (initial_state 0 Map.empty Map.empty))) = [11, 11, 12]
   \<and> fst (projl (run_loop ascii_runtime
        [poll 10 nmea_frame, poll 11 [], poll 13 bad_frame]
        (initial_state 0 Map.empty Map.empty))) = ValueError"
  by (simp add: state_of_def poll_def initial_state_def loop_iteration_def create_csv_def
      rollover_block_def check_sensor_def decode_and_append_nmea nmea_nonempty bad_nonempty
      decode_and_append_bad update_data_def df_rd_def
      append_csv_def update_blank_def backfill_closed df_sensor_def strftime_def
      int_total_seconds_def Let_def upt_0_2 replicate_2)

text \<open>
  Claim C7, as the code has it. When the date has advanced and the previous day's raw
  file does not exist, \<open>pd.read_csv\<close> raises \<open>FileNotFoundError\<close>; nothing catches it, so
  the pass through the loop, and with it the ingestion process, ends with that exception.
  The state it leaves is the one \<open>create_csv\<close> left: nothing was carried over.
\<close>

theorem rollover_missing_partition_raises:
  "today tk \<noteq> previous_date st \<Longrightarrow> raw_files st (previous_date st) = None \<Longrightarrow>
   loop_iteration B tk st = Inl (FileNotFoundError, create_csv (today tk) (today tk) st)"
  by (simp add: loop_iteration_def rollover_block_def create_csv_previous_date
      create_csv_raw_other Let_def)

theorem rollover_missing_partition_raises_witness:
  "loop_iteration ascii_runtime (poll 86405 nmea_frame)
     (initial_state 0 Map.empty (Map.empty(0 \<mapsto> [])))
   = Inl (FileNotFoundError,
          create_csv 1 1 (initial_state 0 Map.empty (Map.empty(0 \<mapsto> []))))"
  using rollover_missing_partition_raises
    [of "poll 86405 nmea_frame" "initial_state 0 Map.empty (Map.empty(0 \<mapsto> []))" ascii_runtime]
  by (simp add: poll_def initial_state_def)

text \<open>
  Claim C7 as stated fails: started on day 1 with only the raw file of day 0 on disk, the
  first pass on day 2 finds no file for day 1 and ends with \<open>FileNotFoundError\<close>; the
  rollover is not skipped and the loop does not continue.
\<close>

theorem rollover_skipped_counterexample:
  "loop_iteration ascii_runtime (poll 172800 [])
     (initial_state 1 (Map.empty(0 \<mapsto> [])) Map.empty)
   = Inl (FileNotFoundError,
          create_csv 2 2 (initial_state 1 (Map.empty(0 \<mapsto> [])) Map.empty))"
  by (simp add: loop_iteration_def rollover_block_def create_csv_def poll_def
      initial_state_def Let_def)

lemma last_hour_example: "last_hour 0 [early_row, carried_row] = [carried_row]"
  by (simp add: last_hour_def early_row_def carried_row_def)

lemma rollover_midnight:
  "rollover_block 1 midnight_state =
     Inr (midnight_state\<lparr>raw_files := (raw_files midnight_state)(1 \<mapsto> [carried_row, new_row]),
                         previous_date := 1\<rparr>)"
  by (simp add: rollover_block_def midnight_state_def initial_state_def last_hour_example)

text \<open>
  Claim C8, as the code has it. A run of the rollover block (lines 300 to 319) that
  succeeds leaves a state on which a second run for the same current date changes
  nothing: the first run has set \<open>previous_date\<close> to the current date and the guard skips
  the second. When the first run carried rows over, the new day's file holds the last
  hour of the previous day once, in front of the rows it already had.
\<close>

theorem rollover_block_runs_once:
  "rollover_block d st = Inr st' \<Longrightarrow>
     rollover_block d st' = Inr st'
     \<and> (d \<noteq> previous_date st \<longrightarrow>
          (\<exists>pday_df new_day_df.
             raw_files st (previous_date st) = Some pday_df
             \<and> raw_files st d = Some new_day_df
             \<and> raw_files st' d = Some (last_hour (previous_date st) pday_df @ new_day_df)))"
  by (auto simp: rollover_block_def split: if_splits option.splits)

theorem rollover_block_runs_once_witness:
  "rollover_block 1
     (midnight_state\<lparr>raw_files := (raw_files midnight_state)(1 \<mapsto> [carried_row, new_row]),
                     previous_date := 1\<rparr>)
   = Inr (midnight_state\<lparr>raw_files := (raw_files midnight_state)(1 \<mapsto> [carried_row, new_row]),
                         previous_date := 1\<rparr>)"
  using rollover_block_runs_once [OF rollover_midnight] by blast

text \<open>
  Claim C8 as stated fails: run again on the same pair (previous date 0, current date 1),
  the rollover block prepends the carried hour a second time.
\<close>

theorem rollover_twice_same_pair_counterexample:
  "stored (rollover_block 1
            ((projr (rollover_block 1 midnight_state))\<lparr>previous_date := 0\<rparr>)) 1
     = Some [carried_row, carried_row, new_row]"
  by (simp add: rollover_midnight rollover_block_def midnight_state_def initial_state_def
      last_hour_example stored_def)

section \<open>Properties of the aggregation engine\<close>

subsection \<open>Series, buckets and resampling\<close>

lemma rolling_length: "length (rolling f w s) = length s"
  by (simp add: rolling_def)

lemma rolling_nth:
  "i < length s \<Longrightarrow> rolling f w s ! i = (fst (s ! i), rolling_at f w (map snd s) i)"
  by (simp add: rolling_def)

lemma map_fst_rolling: "map fst (rolling f w s) = map fst s"
  by (simp add: rolling_def)

lemma map_fst_column: "map fst (column f df) = map DateTime df"
  by (simp add: column_def comp_def)

lemma map_snd_column: "map snd (column f df) = map f df"
  by (simp add: column_def comp_def)

lemma in_bucket_iff:
  "c \<in> set (bucket s m) \<longleftrightarrow> (\<exists>j < length s. minute_of (fst (s ! j)) = m \<and> snd (s ! j) = c)"
proof
  assume "c \<in> set (bucket s m)"
  then obtain p where p: "p \<in> set s" "minute_of (fst p) = m" "snd p = c"
    by (auto simp: bucket_def split_beta)
  then obtain j where "j < length s" "s ! j = p"
    by (auto simp: in_set_conv_nth)
  with p show "\<exists>j < length s. minute_of (fst (s ! j)) = m \<and> snd (s ! j) = c"
    by blast
next
  assume "\<exists>j < length s. minute_of (fst (s ! j)) = m \<and> snd (s ! j) = c"
  then obtain j where j: "j < length s" "minute_of (fst (s ! j)) = m" "snd (s ! j) = c"
    by blast
  then have "s ! j \<in> set s" by simp
  with j show "c \<in> set (bucket s m)"
    by (force simp: bucket_def split_beta image_iff)
qed

lemma minute_in_range:
  assumes "j < length s"
  shows "minute_of (fst (s ! j)) \<in> set [Min (set (map (minute_of \<circ> fst) s)) .. Max (set (map (minute_of \<circ> fst) s))]"
proof -
  have "minute_of (fst (s ! j)) \<in> set (map (minute_of \<circ> fst) s)"
    using assms by (auto simp: in_set_conv_nth intro!: exI[of _ j])
  then show ?thesis
    by (simp add: Min_le Max_ge del: set_map)
qed

lemma map_of_resample:
  assumes "j < length s"
  shows "map_of (resample agg s) (minute_of (fst (s ! j))) = Some (agg (bucket s (minute_of (fst (s ! j)))))"
proof -
  have "s \<noteq> []" using assms by auto
  then show ?thesis
    using minute_in_range [OF assms]
    by (simp add: resample_def map_of_map_restrict restrict_map_def del: set_upto set_map)
qed

lemma map_fst_resample_cong:
  assumes "map fst s = map fst s'"
  shows "map fst (resample agg s) = map fst (resample agg' s')"
proof -
  have "map (minute_of \<circ> fst) s = map (minute_of \<circ> fst) s'"
    using assms by (metis map_map)
  moreover have "s = [] \<longleftrightarrow> s' = []" using assms by (metis map_is_Nil_conv)
  ultimately show ?thesis
    by (simp add: resample_def comp_def)
qed

lemma map_fst_round_series: "map fst (round_series n s) = map fst s"
  by (simp add: round_series_def split_beta comp_def)

lemma map_of_round_series:
  "map_of (round_series n s) m = map_option (round_cell n) (map_of s m)"
  by (simp add: round_series_def map_of_map)

lemma round_series_nth:
  "i < length s \<Longrightarrow> round_series n s ! i = (fst (s ! i), round_cell n (snd (s ! i)))"
  by (simp add: round_series_def split_beta)

lemma map_of_calc_degrees:
  "map fst u = map fst v \<Longrightarrow> map_of u m = Some a \<Longrightarrow> map_of v m = Some b \<Longrightarrow>
   map_of (calc_degrees u v) m = Some (calc_degrees1 a b)"
proof (induction u arbitrary: v)
  case Nil
  then show ?case by simp
next
  case (Cons p u)
  then obtain q v' where v: "v = q # v'" by (cases v) auto
  with Cons.prems have eq: "fst p = fst q" "map fst u = map fst v'" by auto
  show ?case
  proof (cases "fst p = m")
    case True
    then show ?thesis using Cons.prems v eq
      by (cases p; cases q) (simp add: calc_degrees_def)
  next
    case False
    then have "map_of u m = Some a" "map_of v' m = Some b"
      using Cons.prems v eq by (cases p; cases q; simp)+
    then have "map_of (calc_degrees u v') m = Some (calc_degrees1 a b)"
      using Cons.IH eq by blast
    then show ?thesis using False v
      by (cases p; cases q) (simp add: calc_degrees_def)
  qed
qed

subsection \<open>Rolling windows\<close>

lemma those_replicate: "those (replicate n (Some a)) = Some (replicate n a)"
  by (induction n) simp_all

lemma those_None: "None \<in> set cs \<Longrightarrow> those cs = None"
  by (induction cs) (auto split: option.splits)


lemma mean_replicate: "0 < n \<Longrightarrow> mean (replicate n a) = a"
  by (simp add: mean_def sum_list_replicate)

lemma maximum_replicate: "0 < n \<Longrightarrow> maximum (replicate n a) = a"
  by (simp add: maximum_def)

lemma window_nth:
  assumes "w \<le> i + 1" "i < length xs" "k < w"
  shows "take w (drop (i + 1 - w) xs) ! k = xs ! (i + 1 - w + k)"
  using assms by simp

lemma window_length:
  assumes "w \<le> i + 1" "i < length xs"
  shows "length (take w (drop (i + 1 - w) xs)) = w"
  using assms by simp

lemma window_const:
  assumes "w \<le> i + 1" "i < length xs"
    and "\<forall>k. i + 1 - w \<le> k \<and> k \<le> i \<longrightarrow> xs ! k = Some a"
  shows "take w (drop (i + 1 - w) xs) = replicate w (Some a)"
proof (rule nth_equalityI)
  show "length (take w (drop (i + 1 - w) xs)) = length (replicate w (Some a))"
    using assms(1,2) by simp
next
  fix k assume "k < length (take w (drop (i + 1 - w) xs))"
  then have k: "k < w" by simp
  have "take w (drop (i + 1 - w) xs) ! k = xs ! (i + 1 - w + k)"
    using window_nth [OF assms(1,2) k] .
  also have "\<dots> = Some a"
  proof -
    have "i + 1 - w \<le> i + 1 - w + k \<and> i + 1 - w + k \<le> i"
      using assms(1) k by linarith
    then show ?thesis using assms(3) by blast
  qed
  finally show "take w (drop (i + 1 - w) xs) ! k = replicate w (Some a) ! k"
    using k by simp
qed


lemma rolling_at_const:
  assumes "0 < w" "w \<le> i + 1" "i < length xs"
    and "\<forall>k. i + 1 - w \<le> k \<and> k \<le> i \<longrightarrow> xs ! k = Some a"
    and "f (replicate w a) = a"
  shows "rolling_at f w xs i = Some a"
  using assms(1,2,5) window_const [OF assms(2,3,4)]
  by (simp add: rolling_at_def those_replicate)

lemma rolling_at_short: "i + 1 < w \<Longrightarrow> rolling_at f w xs i = None"
  by (simp add: rolling_at_def)


subsection \<open>Block aggregates\<close>

lemma set_present: "set (present cs) = {x. Some x \<in> set cs}"
  by (induction cs rule: present.induct) auto

lemma present_nonempty: "Some a \<in> set cs \<Longrightarrow> present cs \<noteq> []"
  using set_present [of cs] by (metis empty_iff empty_set mem_Collect_eq)

lemma present_all_None: "\<forall>c \<in> set cs. c = None \<Longrightarrow> present cs = []"
  by (induction cs rule: present.induct) auto

lemma mean_const:
  assumes "xs \<noteq> []" "\<forall>x \<in> set xs. x = a"
  shows "mean xs = a"
proof -
  have "xs = replicate (length xs) a"
    using assms(2) by (simp add: replicate_length_same)
  moreover have "0 < length xs" using assms(1) by simp
  ultimately show ?thesis using mean_replicate by metis
qed

lemma maximum_const:
  assumes "xs \<noteq> []" "\<forall>x \<in> set xs. x = a"
  shows "maximum xs = a"
proof -
  have "set xs = {a}" using assms by (cases xs) auto
  then show ?thesis by (simp add: maximum_def)
qed

lemma nan_mean_const:
  assumes "Some a \<in> set cs" "\<forall>c \<in> set cs. c = None \<or> c = Some a"
  shows "nan_mean cs = Some a"
proof -
  have "\<forall>x \<in> set (present cs). x = a"
    using assms(2) by (auto simp: set_present)
  then show ?thesis
    using present_nonempty [OF assms(1)] by (simp add: nan_mean_def mean_const)
qed

lemma nan_max_const:
  assumes "Some a \<in> set cs" "\<forall>c \<in> set cs. c = None \<or> c = Some a"
  shows "nan_max cs = Some a"
proof -
  have "\<forall>x \<in> set (present cs). x = a"
    using assms(2) by (auto simp: set_present)
  then show ?thesis
    using present_nonempty [OF assms(1)] by (simp add: nan_max_def maximum_const)
qed

lemma nan_max_all_None: "\<forall>c \<in> set cs. c = None \<Longrightarrow> nan_max cs = None"
  by (simp add: nan_max_def present_all_None)

lemma np_round_int: "np_round n (of_int z) = of_int z"
proof -
  have "of_int z * (10::real) ^ n = of_int (z * 10 ^ n)" by simp
  then have "rint (of_int z * 10 ^ n) = z * 10 ^ n"
    unfolding rint_def by (simp only: Let_def floor_of_int) simp
  then show ?thesis by (simp add: np_round_def)
qed

lemma map_of_resample_const:
  assumes i: "i < length s" and m: "m = minute_of (fst (s ! i))" and vi: "snd (s ! i) = Some a"
    and all: "\<forall>k < length s. minute_of (fst (s ! k)) = m \<longrightarrow> snd (s ! k) = None \<or> snd (s ! k) = Some a"
    and agg: "\<And>cs. Some a \<in> set cs \<Longrightarrow> \<forall>c \<in> set cs. c = None \<or> c = Some a \<Longrightarrow> agg cs = Some a"
  shows "map_of (resample agg s) m = Some (Some a)"
proof -
  have some: "Some a \<in> set (bucket s m)"
    using i m vi by (subst in_bucket_iff) (intro exI [of _ i], simp)
  have rest: "\<forall>c \<in> set (bucket s m). c = None \<or> c = Some a"
  proof
    fix c assume "c \<in> set (bucket s m)"
    then have "\<exists>j < length s. minute_of (fst (s ! j)) = m \<and> snd (s ! j) = c"
      by (simp only: in_bucket_iff)
    then obtain j where j: "j < length s" "minute_of (fst (s ! j)) = m" "snd (s ! j) = c"
      by blast
    from all j(1,2) have "snd (s ! j) = None \<or> snd (s ! j) = Some a" by simp
    then show "c = None \<or> c = Some a" using j(3) by simp
  qed
  have "agg (bucket s m) = Some a"
    using agg [OF some rest] .
  then show ?thesis
    using map_of_resample [OF i, of agg] m by simp
qed

lemma map_of_resample_all_None:
  assumes i: "i < length s" and m: "m = minute_of (fst (s ! i))"
    and all: "\<forall>k < length s. snd (s ! k) = None"
  shows "map_of (resample nan_max s) m = Some None"
proof -
  have "\<forall>c \<in> set (bucket s m). c = None"
  proof
    fix c assume "c \<in> set (bucket s m)"
    then have "\<exists>j < length s. minute_of (fst (s ! j)) = m \<and> snd (s ! j) = c"
      by (simp only: in_bucket_iff)
    then obtain j where "j < length s" "snd (s ! j) = c"
      by blast
    then show "c = None" using all by auto
  qed
  then have "nan_max (bucket s m) = None"
    by (rule nan_max_all_None)
  then show ?thesis
    using map_of_resample [OF i, of nan_max] m by simp
qed

lemma rolling_at_const_or_None:
  assumes "\<forall>c \<in> set xs. c = None \<or> c = Some a" "f (replicate w a) = a" "k < length xs"
  shows "rolling_at f w xs k = None \<or> rolling_at f w xs k = Some a"
proof (cases "w = 0 \<or> k + 1 < w")
  case True
  then show ?thesis by (simp add: rolling_at_def)
next
  case False
  then have w: "w \<le> k + 1" by simp
  let ?win = "take w (drop (k + 1 - w) xs)"
  show ?thesis
  proof (cases "None \<in> set ?win")
    case True
    then show ?thesis using False by (simp add: rolling_at_def those_None)
  next
    case nn: False
    have sub: "set ?win \<subseteq> set xs"
      by (meson set_take_subset set_drop_subset subset_trans)
    have "\<forall>c \<in> set ?win. c = Some a"
    proof
      fix c assume c: "c \<in> set ?win"
      then have "c \<in> set xs" using sub by blast
      then have "c = None \<or> c = Some a" using assms(1) by blast
      then show "c = Some a" using c nn by auto
    qed
    then have "replicate (length ?win) (Some a) = ?win"
      by (rule replicate_length_same)
    then have "?win = replicate w (Some a)"
      by (simp only: window_length [OF w assms(3)])
    then show ?thesis
      using False assms(2) by (simp add: rolling_at_def those_replicate)
  qed
qed

subsection \<open>The 60-minute gust\<close>

lemma length_steady [simp]: "length (steady_rows n) = n"
  by (simp add: steady_rows_def)

lemma steady_nth:
  "k < n \<Longrightarrow> steady_rows n ! k =
     \<lparr>DateTime = int k, WindDirection = Some 180, WindSpeed = Some 5, U = Some 5, V = Some 0\<rparr>"
  by (simp add: steady_rows_def)

lemma np_round_5: "np_round 4 5 = 5"
  using np_round_int [of 4 5] by simp

lemma np_round_0: "np_round 4 0 = 0"
  using np_round_int [of 4 0] by simp

lemma gust_steady_length: "length (three_second_gust (steady_rows n)) = n"
  by (simp add: three_second_gust_def round_series_def rolling_length column_def)

lemma gust_steady_nth:
  assumes "k < n"
  shows "three_second_gust (steady_rows n) ! k = (int k, if 2 \<le> k then Some 5 else None)"
proof -
  let ?xs = "map WindSpeed (steady_rows n)"
  have len: "length ?xs = n" by simp
  have all: "\<forall>j < n. ?xs ! j = Some 5"
    by (simp add: steady_nth)
  have roll: "rolling_at mean 3 ?xs k = (if 2 \<le> k then Some 5 else None)"
  proof (cases "2 \<le> k")
    case True
    then have w: "(3::nat) \<le> k + 1" by simp
    have "\<forall>j. k + 1 - 3 \<le> j \<and> j \<le> k \<longrightarrow> ?xs ! j = Some 5"
      using all assms by auto
    then have "rolling_at mean 3 ?xs k = Some 5"
      using rolling_at_const [of 3 k ?xs 5 mean] w assms len
      by (simp add: mean_replicate)
    then show ?thesis using True by simp
  next
    case False
    then show ?thesis by (simp add: rolling_at_short)
  qed
  have "rolling mean 3 (column WindSpeed (steady_rows n)) ! k = (int k, rolling_at mean 3 ?xs k)"
    using assms by (simp add: rolling_nth column_def comp_def steady_nth)
  then show ?thesis
    using assms roll
    by (simp add: three_second_gust_def round_series_nth rolling_length column_def
        round_cell_def np_round_5)
qed

lemma gust_steady_cells:
  "\<forall>c \<in> set (map snd (three_second_gust (steady_rows n))). c = None \<or> c = Some 5"
proof
  fix c assume "c \<in> set (map snd (three_second_gust (steady_rows n)))"
  then obtain k where "k < n" "c = snd (three_second_gust (steady_rows n) ! k)"
    by (auto simp: in_set_conv_nth gust_steady_length)
  then show "c = None \<or> c = Some 5"
    by (simp add: gust_steady_nth)
qed

text \<open>
  Claim C3, evaluated on the code. On 602 seconds of steady 5 m/s wind the 60-minute gust
  column already reports 5 m/s for minute 10, which is what a trailing window of 600
  samples gives; the rolling maximum over 3600 samples is still absent there. Line 154
  passes \<open>window = 600\<close> where the 60-minute window needs 3600.
\<close>

theorem gst_1hour_uses_600_window:
  "map_of (gst_1hour (steady_rows 602)) 10 = Some (Some 5)
   \<and> map_of (roll_gust (three_second_gust (steady_rows 602)) 3600) 10 = Some None"
proof
  let ?g = "three_second_gust (steady_rows 602)"
  let ?xs = "map snd ?g"
  have len: "length ?g = 602" by (rule gust_steady_length)
  have xs: "\<And>j. j < 602 \<Longrightarrow> ?xs ! j = (if 2 \<le> j then Some 5 else None)"
    by (simp add: gust_steady_length gust_steady_nth)
  have fst_g: "\<And>j. j < 602 \<Longrightarrow> fst (?g ! j) = int j"
    by (simp add: gust_steady_nth)
  let ?r = "rolling maximum 600 ?g"
  have rlen: "length ?r = 602" by (simp add: rolling_length len)
  have rnth: "\<And>j. j < 602 \<Longrightarrow> ?r ! j = (int j, rolling_at maximum 600 ?xs j)"
    by (simp add: rolling_nth len fst_g)
  have "\<forall>j. 601 + 1 - 600 \<le> j \<and> j \<le> 601 \<longrightarrow> ?xs ! j = Some 5"
    using xs by auto
  then have at601: "rolling_at maximum 600 ?xs 601 = Some 5"
    using rolling_at_const [of 600 601 ?xs 5 maximum] len
    by (simp add: maximum_replicate)
  have cells: "\<And>j. j < 602 \<Longrightarrow>
      rolling_at maximum 600 ?xs j = None \<or> rolling_at maximum 600 ?xs j = Some 5"
    using rolling_at_const_or_None [OF gust_steady_cells, of maximum 600 _ 602] len
    by (simp add: maximum_replicate)
  have "map_of (resample nan_max ?r) 10 = Some (Some 5)"
  proof (rule map_of_resample_const [where i = 601])
    show "601 < length ?r" by (simp add: rlen)
    show "10 = minute_of (fst (?r ! 601))" by (simp add: rnth minute_of_def)
    show "snd (?r ! 601) = Some 5" by (simp add: rnth at601)
    show "\<forall>k<length ?r. minute_of (fst (?r ! k)) = 10 \<longrightarrow>
        snd (?r ! k) = None \<or> snd (?r ! k) = Some 5"
      using cells by (simp add: rlen rnth)
    show "\<And>cs. Some 5 \<in> set cs \<Longrightarrow> \<forall>c\<in>set cs. c = None \<or> c = Some 5 \<Longrightarrow> nan_max cs = Some 5"
      by (rule nan_max_const)
  qed
  then show "map_of (gst_1hour (steady_rows 602)) 10 = Some (Some 5)"
    by (simp add: gst_1hour_def roll_gust_def)
next
  let ?g = "three_second_gust (steady_rows 602)"
  let ?xs = "map snd ?g"
  have len: "length ?g = 602" by (rule gust_steady_length)
  have fst_g: "\<And>j. j < 602 \<Longrightarrow> fst (?g ! j) = int j"
    by (simp add: gust_steady_nth)
  let ?r = "rolling maximum 3600 ?g"
  have rlen: "length ?r = 602" by (simp add: rolling_length len)
  have rnth: "\<And>j. j < 602 \<Longrightarrow> ?r ! j = (int j, None)"
    by (simp add: rolling_nth len fst_g rolling_at_short)
  have "map_of (resample nan_max ?r) 10 = Some None"
  proof (rule map_of_resample_all_None [where i = 601])
    show "601 < length ?r" by (simp add: rlen)
    show "10 = minute_of (fst (?r ! 601))" by (simp add: rnth minute_of_def)
    show "\<forall>k<length ?r. snd (?r ! k) = None" by (simp add: rlen rnth)
  qed
  then show "map_of (roll_gust (three_second_gust (steady_rows 602)) 3600) 10 = Some None"
    by (simp add: roll_gust_def)
qed

subsection \<open>Vector mean direction\<close>

lemma full_windowsD:
  assumes fw: "full_windows w df m u v"
    and k: "k < length df" "minute_of (DateTime (df ! k)) = m" "w \<le> k + 1"
    and k': "k + 1 - w \<le> k'" "k' \<le> k"
  shows "U (df ! k') = Some u \<and> V (df ! k') = Some v"
proof -
  let ?win = "take w (drop (k + 1 - w) df)"
  have all: "list_all (\<lambda>r. U r = Some u \<and> V r = Some v) ?win"
    using fw k by (simp add: full_windows_def list_all_iff)
  have j: "k' - (k + 1 - w) < w" using k(3) k' by linarith
  have "?win ! (k' - (k + 1 - w)) = df ! (k + 1 - w + (k' - (k + 1 - w)))"
    using window_nth [OF k(3) k(1) j] .
  then have eq: "?win ! (k' - (k + 1 - w)) = df ! k'"
    using k'(1) by simp
  have "k' - (k + 1 - w) < length ?win"
    using j window_length [OF k(3) k(1)] by simp
  then have "?win ! (k' - (k + 1 - w)) \<in> set ?win"
    by (rule nth_mem)
  then show ?thesis
    using all eq by (simp add: list_all_iff)
qed

lemma roll_avg_const_bucket:
  assumes w: "0 < w"
    and i: "i < length df" "w \<le> i + 1"
    and m: "m = minute_of (DateTime (df ! i))"
    and full: "\<And>k k'. k < length df \<Longrightarrow> minute_of (DateTime (df ! k)) = m \<Longrightarrow> w \<le> k + 1 \<Longrightarrow>
                k + 1 - w \<le> k' \<Longrightarrow> k' \<le> k \<Longrightarrow> f (df ! k') = Some a"
  shows "map_of (roll_avg (column f df) w) m = Some (Some (np_round 4 a))"
proof -
  let ?r = "rolling mean w (column f df)"
  have len: "length ?r = length df"
    by (simp add: rolling_length column_def)
  have nth: "\<And>k. k < length df \<Longrightarrow> ?r ! k = (DateTime (df ! k), rolling_at mean w (map f df) k)"
    by (simp add: rolling_nth column_def comp_def)
  have val: "\<And>k. k < length df \<Longrightarrow> minute_of (DateTime (df ! k)) = m \<Longrightarrow>
      rolling_at mean w (map f df) k = (if w \<le> k + 1 then Some a else None)"
  proof -
    fix k assume k: "k < length df" "minute_of (DateTime (df ! k)) = m"
    show "rolling_at mean w (map f df) k = (if w \<le> k + 1 then Some a else None)"
    proof (cases "w \<le> k + 1")
      case True
      have "\<forall>k'. k + 1 - w \<le> k' \<and> k' \<le> k \<longrightarrow> map f df ! k' = Some a"
        using full [OF k True] k(1) by auto
      then show ?thesis
        using True rolling_at_const [OF w True, of "map f df" a mean] k(1) w
        by (simp add: mean_replicate)
    next
      case False
      then show ?thesis by (simp add: rolling_at_short)
    qed
  qed
  have "map_of (resample nan_mean ?r) m = Some (Some a)"
  proof (rule map_of_resample_const [where i = i])
    show "i < length ?r" using i(1) len by simp
    show "m = minute_of (fst (?r ! i))" using m nth [OF i(1)] by simp
    show "snd (?r ! i) = Some a" using nth [OF i(1)] val [OF i(1)] m i(2) by simp
    show "\<forall>k<length ?r. minute_of (fst (?r ! k)) = m \<longrightarrow>
        snd (?r ! k) = None \<or> snd (?r ! k) = Some a"
      using len nth val by simp
    show "\<And>cs. Some a \<in> set cs \<Longrightarrow> \<forall>c\<in>set cs. c = None \<or> c = Some a \<Longrightarrow> nan_mean cs = Some a"
      by (rule nan_mean_const)
  qed
  then show ?thesis
    by (simp add: roll_avg_def map_of_round_series round_cell_def)
qed

lemma block_mean_const_bucket:
  assumes i: "i < length df"
    and m: "m = minute_of (DateTime (df ! i))"
    and full: "\<And>k. k < length df \<Longrightarrow> minute_of (DateTime (df ! k)) = m \<Longrightarrow> f (df ! k) = Some a"
  shows "map_of (round_series 4 (resample nan_mean (column f df))) m = Some (Some (np_round 4 a))"
proof -
  let ?s = "column f df"
  have len: "length ?s = length df" by (simp add: column_def)
  have nth: "\<And>k. k < length df \<Longrightarrow> ?s ! k = (DateTime (df ! k), f (df ! k))"
    by (simp add: column_def)
  have "map_of (resample nan_mean ?s) m = Some (Some a)"
  proof (rule map_of_resample_const [where i = i])
    show "i < length ?s" using i len by simp
    show "m = minute_of (fst (?s ! i))" using m nth [OF i] by simp
    show "snd (?s ! i) = Some a" using nth [OF i] full [OF i] m by simp
    show "\<forall>k<length ?s. minute_of (fst (?s ! k)) = m \<longrightarrow>
        snd (?s ! k) = None \<or> snd (?s ! k) = Some a"
      using len nth full by simp
    show "\<And>cs. Some a \<in> set cs \<Longrightarrow> \<forall>c\<in>set cs. c = None \<or> c = Some a \<Longrightarrow> nan_mean cs = Some a"
      by (rule nan_mean_const)
  qed
  then show ?thesis
    by (simp add: map_of_round_series round_cell_def)
qed

lemma roll_avg_keys:
  "map fst (roll_avg (column f df) w) = map fst (roll_avg (column g df) w)"
  unfolding roll_avg_def map_fst_round_series
  by (rule map_fst_resample_cong) (simp add: map_fst_rolling map_fst_column)

lemma block_mean_keys:
  "map fst (round_series 4 (resample nan_mean (column f df)))
     = map fst (round_series 4 (resample nan_mean (column g df)))"
  unfolding map_fst_round_series
  by (rule map_fst_resample_cong) (simp add: map_fst_column)

lemma calc_degrees1_5_0: "calc_degrees1 (Some 5) (Some 0) = Some 180"
  by (simp add: arctan2_def degrees_def py_mod_def np_round_def rint_def)

text \<open>
  Claim C5, with the angle the code computes. If every sample that contributes to a full
  window ending in minute \<open>m\<close> has \<open>u = 5\<close> and \<open>v = 0\<close>, and at least one full window
  ends in that minute, the vector mean direction reported for \<open>m\<close> is 180 degrees (wind
  from the south), for each of the three windows: 1 row (the 1-minute column is the block
  mean of the minute), 600 rows and 3600 rows.
\<close>

theorem vector_mean_direction_u5_v0:
  assumes "i < length df" and "m = minute_of (DateTime (df ! i))"
    and "w \<le> i + 1" and "full_windows w df m 5 0"
  shows "(w = 1 \<longrightarrow> map_of (deg_result_1min df) m = Some (Some 180))
       \<and> (w = 600 \<longrightarrow> map_of (deg_result_10min df) m = Some (Some 180))
       \<and> (w = 3600 \<longrightarrow> map_of (deg_result_1hour df) m = Some (Some 180))"
proof (intro conjI impI)
  assume w: "w = 1"
  have row: "\<And>k. k < length df \<Longrightarrow> minute_of (DateTime (df ! k)) = m \<Longrightarrow>
      U (df ! k) = Some 5 \<and> V (df ! k) = Some 0"
    using full_windowsD [OF assms(4)] w by simp
  have u: "map_of (u_mean_1min df) m = Some (Some (np_round 4 5))"
    unfolding u_mean_1min_def using assms(1,2) row
    by (intro block_mean_const_bucket [where i = i]) auto
  have v: "map_of (v_mean_1min df) m = Some (Some (np_round 4 0))"
    unfolding v_mean_1min_def using assms(1,2) row
    by (intro block_mean_const_bucket [where i = i]) auto
  have keys: "map fst (u_mean_1min df) = map fst (v_mean_1min df)"
    unfolding u_mean_1min_def v_mean_1min_def by (rule block_mean_keys)
  show "map_of (deg_result_1min df) m = Some (Some 180)"
    unfolding deg_result_1min_def
    using map_of_calc_degrees [OF keys u v]
    by (simp only: np_round_5 np_round_0 calc_degrees1_5_0)
next
  assume w: "w = 600"
  have row: "\<And>k k'. k < length df \<Longrightarrow> minute_of (DateTime (df ! k)) = m \<Longrightarrow> 600 \<le> k + 1 \<Longrightarrow>
      k + 1 - 600 \<le> k' \<Longrightarrow> k' \<le> k \<Longrightarrow> U (df ! k') = Some 5 \<and> V (df ! k') = Some 0"
    using full_windowsD [OF assms(4)] w by simp
  have u: "map_of (roll_avg (column U df) 600) m = Some (Some (np_round 4 5))"
    using assms(1,2,3) w row by (intro roll_avg_const_bucket [where i = i]) auto
  have v: "map_of (roll_avg (column V df) 600) m = Some (Some (np_round 4 0))"
    using assms(1,2,3) w row by (intro roll_avg_const_bucket [where i = i]) auto
  show "map_of (deg_result_10min df) m = Some (Some 180)"
    unfolding deg_result_10min_def u_mean_10min_def v_mean_10min_def
    using map_of_calc_degrees [OF roll_avg_keys u v]
    by (simp only: np_round_5 np_round_0 calc_degrees1_5_0)
next
  assume w: "w = 3600"
  have row: "\<And>k k'. k < length df \<Longrightarrow> minute_of (DateTime (df ! k)) = m \<Longrightarrow> 3600 \<le> k + 1 \<Longrightarrow>
      k + 1 - 3600 \<le> k' \<Longrightarrow> k' \<le> k \<Longrightarrow> U (df ! k') = Some 5 \<and> V (df ! k') = Some 0"
    using full_windowsD [OF assms(4)] w by simp
  have u: "map_of (roll_avg (column U df) 3600) m = Some (Some (np_round 4 5))"
    using assms(1,2,3) w row by (intro roll_avg_const_bucket [where i = i]) auto
  have v: "map_of (roll_avg (column V df) 3600) m = Some (Some (np_round 4 0))"
    using assms(1,2,3) w row by (intro roll_avg_const_bucket [where i = i]) auto
  show "map_of (deg_result_1hour df) m = Some (Some 180)"
    unfolding deg_result_1hour_def u_mean_1hour_def v_mean_1hour_def
    using map_of_calc_degrees [OF roll_avg_keys u v]
    by (simp only: np_round_5 np_round_0 calc_degrees1_5_0)
qed

lemma full_windows_steady: "full_windows w (steady_rows n) m 5 0"
proof -
  have "\<forall>r \<in> set (steady_rows n). U r = Some 5 \<and> V r = Some 0"
    by (auto simp: steady_rows_def)
  then have "\<And>k. \<forall>r \<in> set (take w (drop (k + 1 - w) (steady_rows n))). U r = Some 5 \<and> V r = Some 0"
    by (meson in_set_takeD in_set_dropD)
  then show ?thesis
    by (simp add: full_windows_def list_all_iff)
qed

theorem vector_mean_direction_u5_v0_witness:
  "map_of (deg_result_1min (steady_rows 3600)) 59 = Some (Some 180)
   \<and> map_of (deg_result_10min (steady_rows 3600)) 59 = Some (Some 180)
   \<and> map_of (deg_result_1hour (steady_rows 3600)) 59 = Some (Some 180)"
proof -
  have i: "3599 < length (steady_rows 3600)" by simp
  have m: "59 = minute_of (DateTime (steady_rows 3600 ! 3599))"
    by (simp add: steady_nth minute_of_def)
  show ?thesis
    using vector_mean_direction_u5_v0 [OF i m _ full_windows_steady, of 1]
      vector_mean_direction_u5_v0 [OF i m _ full_windows_steady, of 600]
      vector_mean_direction_u5_v0 [OF i m _ full_windows_steady, of 3600]
    by simp
qed

text \<open>
  Claim C5 as stated fails: for \<open>u = 5\<close>, \<open>v = 0\<close> the angle
  \<open>degrees(atan2(-0, -5)) mod 360\<close> is 180, not 270.
\<close>

theorem direction_270_counterexample:
  "calc_degrees [(0, Some 5)] [(0, Some 0)] = [(0, Some 180)]"
  by (simp add: calc_degrees_def calc_degrees1_5_0 del: calc_degrees1.simps)

subsection \<open>Scalar mean speed\<close>



























subsection \<open>The step and the gap\<close>

lemma length_step [simp]: "length step_rows = 61"
  by (simp add: step_rows_def)




lemma length_gap [simp]: "length gap_rows = 660"
  by (simp add: gap_rows_def)





end
